theory Spec2Isabelle
  imports Main "HOL-Library.Word"
begin

text \<open>
  The vault core of offpass, a local password manager: key derivation and authenticated
  encryption (\<open>crypto.ts\<close>), the IndexedDB store (\<open>storage.ts\<close>), the vault service
  (\<open>vault.ts\<close>) and the part of the React context that changes the master password
  (\<open>context.tsx\<close>), as functions over an explicit world, followed by the properties
  claimed of them.
\<close>

section \<open>Data model (types.ts)\<close>

type_synonym bytes = "8 word list"

text \<open>
  Every \<open>throw new Error(msg)\<close> of the source is \<open>Error msg\<close> with the source's own
  message; the remaining constructors are the exceptions the platform raises.
\<close>

datatype error =
    Error string
  | OperationError      \<comment> \<open>\<open>crypto.subtle.decrypt\<close>: authentication failed\<close>
  | SyntaxError         \<comment> \<open>\<open>JSON.parse\<close>\<close>
  | TypeError           \<comment> \<open>property read on \<open>null\<close>, \<open>decodeBase64\<close> on a malformed string\<close>
  | DataError           \<comment> \<open>\<open>IDBObjectStore.put\<close>: no valid key at the key path\<close>
  | QuotaExceededError  \<comment> \<open>\<open>crypto.getRandomValues\<close>: more than 65536 bytes\<close>

text \<open>
  What a field of \<open>VaultData\<close> declared \<open>number\<close> holds at run time. The finite numbers
  of this model are the integers (the service itself puts only \<open>Date.now()\<close> and the
  literal \<open>15\<close> in such a field, and never computes with one); beside them a \<open>number\<close> may be \<open>NaN\<close>,
  \<open>Infinity\<close> or \<open>-Infinity\<close>. \<open>Null\<close> is not a number: it is what \<open>JSON.parse\<close> leaves in
  the field when \<open>JSON.stringify\<close> met one of those three. The integers have no negative
  zero, which \<open>JSON.stringify\<close> writes as \<open>0\<close>.
\<close>

datatype number = Num int | NaN | PosInfinity | NegInfinity | Null

text \<open>
  \<open>Omit<Credential, "id" | "createdAt" | "lastModified">\<close>: what a caller supplies for a
  new credential. \<open>Credential\<close> adds the three fields the service assigns. An optional
  field that is absent (or \<open>undefined\<close>) is \<open>None\<close>.
\<close>

record CredentialFields =
  title :: string
  username :: string
  password :: string
  url :: "string option"
  c_notes :: "string option"
  category :: "string option"
  tags :: "string list option"

record Credential = CredentialFields +
  cid :: string
  c_lastModified :: number
  c_createdAt :: number

record VaultSettings =
  autoLockTimeout :: "number option"
  categories :: "string list option"
  defaultCategory :: "string option"

record VaultData =
  credentials :: "Credential list"
  settings :: "VaultSettings option"

text \<open>
  The timestamps of a vault record never pass through JSON: the service sets them from
  \<open>Date.now()\<close> and copies them from the stored record.
\<close>

record Vault =
  vid :: string
  name :: string
  createdAt :: int
  lastAccessed :: int
  lastModified :: int

text \<open>\<open>EncryptedVault\<close> has the fields of \<open>Vault\<close> and the three Base64 strings.\<close>

record EncryptedVault = Vault +
  encryptedData :: string
  iv :: string
  salt :: string

section \<open>The platform: randomness, clock, IndexedDB\<close>

text \<open>
  The outcome of one IndexedDB call: \<open>initDatabase\<close> may reject, the request may
  reject, or the request succeeds.
\<close>

datatype io_outcome = IoOk | OpenFails | RequestFails

text \<open>
  The world the code runs in. The object store \<open>vaults\<close> maps a key to the record
  stored under it. Random bytes, UUIDs, clock readings and IndexedDB outcomes are read
  from four tapes, each with the position of the next unread entry.
\<close>

record world =
  vaults :: "string \<rightharpoonup> EncryptedVault"
  entropy :: "nat \<Rightarrow> 8 word"
  drawn :: nat
  uuids :: "nat \<Rightarrow> string"
  uuid_n :: nat
  clock :: "nat \<Rightarrow> int"
  clock_n :: nat
  io :: "nat \<Rightarrow> io_outcome"
  io_n :: nat

definition getRandomValues :: "nat \<Rightarrow> world \<Rightarrow> (error + bytes) \<times> world" where
  "getRandomValues n w =
     (if 65536 < n then (Inl QuotaExceededError, w)
      else (Inr (map (entropy w) [drawn w ..< drawn w + n]), w\<lparr>drawn := drawn w + n\<rparr>))"

definition randomUUID :: "world \<Rightarrow> string \<times> world" where
  "randomUUID w = (uuids w (uuid_n w), w\<lparr>uuid_n := Suc (uuid_n w)\<rparr>)"

definition Date_now :: "world \<Rightarrow> int \<times> world" where
  "Date_now w = (clock w (clock_n w), w\<lparr>clock_n := Suc (clock_n w)\<rparr>)"

section \<open>crypto.ts: password generation\<close>

record PasswordOptions =
  uppercase :: bool
  lowercase :: bool
  numbers :: bool
  symbols :: bool

definition uppercaseChars :: string where
  "uppercaseChars = ''ABCDEFGHIJKLMNOPQRSTUVWXYZ''"

definition lowercaseChars :: string where
  "lowercaseChars = ''abcdefghijklmnopqrstuvwxyz''"

definition numberChars :: string where
  "numberChars = ''0123456789''"

definition symbolChars :: string where
  "symbolChars = ''!@#$%^&*()_-+=<>?''"

definition charset :: "PasswordOptions \<Rightarrow> string" where
  "charset options =
     (if uppercase options then uppercaseChars else []) @
     (if lowercase options then lowercaseChars else []) @
     (if numbers options then numberChars else []) @
     (if symbols options then symbolChars else [])"

definition generatePassword :: "nat \<Rightarrow> PasswordOptions \<Rightarrow> world \<Rightarrow> (error + string) \<times> world" where
  "generatePassword len options w =
     (let chars = charset options in
      if length chars = 0
      then (Inl (Error ''At least one character type must be selected''), w)
      else (case getRandomValues len w of
              (Inl e, w') \<Rightarrow> (Inl e, w')
            | (Inr randomArray, w') \<Rightarrow>
                (Inr (map (\<lambda>b. chars ! (unat b mod length chars)) randomArray), w')))"

section \<open>Sequencing of fallible, stateful steps\<close>

text \<open>
  An \<open>async\<close> function is a function from the world to its outcome and the world it
  leaves: \<open>Inl e\<close> is a rejected promise (a thrown exception), \<open>Inr a\<close> a fulfilled one.
  \<open>andThen\<close> is \<open>await\<close> followed by the rest of the body; \<open>catchAll\<close> is
  \<open>try { ... } catch (error) { throw new Error(msg) }\<close>.
\<close>

type_synonym 'a io = "world \<Rightarrow> (error + 'a) \<times> world"

definition ret :: "'a \<Rightarrow> 'a io" where
  "ret a w = (Inr a, w)"

definition throw :: "error \<Rightarrow> 'a io" where
  "throw e w = (Inl e, w)"

definition andThen :: "'a io \<Rightarrow> ('a \<Rightarrow> 'b io) \<Rightarrow> 'b io" where
  "andThen m f w = (case m w of (Inl e, w') \<Rightarrow> (Inl e, w') | (Inr a, w') \<Rightarrow> f a w')"

definition catchAll :: "'a io \<Rightarrow> error \<Rightarrow> 'a io" where
  "catchAll m e w = (case m w of (Inl _, w') \<Rightarrow> (Inl e, w') | (Inr a, w') \<Rightarrow> (Inr a, w'))"

definition orThrow :: "'a option \<Rightarrow> error \<Rightarrow> 'a io" where
  "orThrow x e = (case x of None \<Rightarrow> throw e | Some a \<Rightarrow> ret a)"

definition liftE :: "error + 'a \<Rightarrow> 'a io" where
  "liftE r w = (r, w)"

definition liftS :: "(world \<Rightarrow> 'a \<times> world) \<Rightarrow> 'a io" where
  "liftS f w = (case f w of (a, w') \<Rightarrow> (Inr a, w'))"

section \<open>crypto.ts: key derivation and authenticated encryption\<close>

text \<open>
  The primitives the code calls and does not implement. \<open>PBKDF2 password salt\<close> is
  \<open>importKey\<close> and \<open>deriveKey\<close> with 100000 rounds of SHA-256 and a 256-bit AES-GCM key;
  \<open>AES_GCM_encrypt key iv plaintext\<close> is \<open>crypto.subtle.encrypt\<close>;
  \<open>AES_GCM_decrypt key iv ciphertext\<close> is \<open>crypto.subtle.decrypt\<close>, \<open>None\<close> when it
  rejects; \<open>JSON_stringify\<close> is \<open>JSON.stringify\<close> followed by \<open>TextEncoder.encode\<close>;
  \<open>JSON_parse\<close> is \<open>TextDecoder.decode\<close> followed by \<open>JSON.parse\<close>, \<open>None\<close> when it
  throws; \<open>encodeBase64\<close> and \<open>decodeBase64\<close> are those of \<open>@std/encoding\<close>, \<open>None\<close>
  when the string is not Base64.
\<close>

record platform =
  PBKDF2 :: "string \<Rightarrow> bytes \<Rightarrow> bytes"
  AES_GCM_encrypt :: "bytes \<Rightarrow> bytes \<Rightarrow> bytes \<Rightarrow> bytes"
  AES_GCM_decrypt :: "bytes \<Rightarrow> bytes \<Rightarrow> bytes \<Rightarrow> bytes option"
  JSON_stringify :: "VaultData \<Rightarrow> bytes"
  JSON_parse :: "bytes \<Rightarrow> VaultData option"
  encodeBase64 :: "bytes \<Rightarrow> string"
  decodeBase64 :: "string \<Rightarrow> bytes option"

text \<open>
  What a value looks like after \<open>JSON.parse(JSON.stringify(v))\<close>. \<open>JSON.stringify\<close>
  writes \<open>NaN\<close>, \<open>Infinity\<close> and \<open>-Infinity\<close> as \<open>null\<close>; a finite number, a string, an
  array and \<open>null\<close> itself are read back as they were written, and a field that is
  absent stays absent.
\<close>

definition json_number :: "number \<Rightarrow> number" where
  "json_number n = (case n of Num i \<Rightarrow> Num i | _ \<Rightarrow> Null)"

definition json_credential :: "Credential \<Rightarrow> Credential" where
  "json_credential c =
     c\<lparr>c_lastModified := json_number (c_lastModified c),
       c_createdAt := json_number (c_createdAt c)\<rparr>"

definition json_settings :: "VaultSettings \<Rightarrow> VaultSettings" where
  "json_settings s = s\<lparr>autoLockTimeout := map_option json_number (autoLockTimeout s)\<rparr>"

definition json_image :: "VaultData \<Rightarrow> VaultData" where
  "json_image v =
     \<lparr>credentials = map json_credential (credentials v),
      settings = map_option json_settings (settings v)\<rparr>"

text \<open>
  What the code relies on: decryption inverts encryption under the same key and iv;
  parsing what serialisation wrote gives the value as JSON carries it; parsing never
  yields \<open>NaN\<close> or an infinity (JSON has no notation for them, and the finite numbers
  of the model are unbounded); Base64 decoding inverts encoding.
\<close>

definition platform_ok :: "platform \<Rightarrow> bool" where
  "platform_ok P \<longleftrightarrow>
     (\<forall>key iv' plaintext. AES_GCM_decrypt P key iv' (AES_GCM_encrypt P key iv' plaintext) = Some plaintext) \<and>
     (\<forall>v. JSON_parse P (JSON_stringify P v) = Some (json_image v)) \<and>
     (\<forall>b. map_option json_image (JSON_parse P b) = JSON_parse P b) \<and>
     (\<forall>b. decodeBase64 P (encodeBase64 P b) = Some b)"

definition generateKeyFromPassword ::
  "platform \<Rightarrow> string \<Rightarrow> bytes option \<Rightarrow> (bytes \<times> bytes) io" where
  "generateKeyFromPassword P password' salt_opt =
     andThen (case salt_opt of None \<Rightarrow> getRandomValues 16 | Some s \<Rightarrow> ret s) (\<lambda>salt'.
     ret (PBKDF2 P password' salt', salt'))"

text \<open>
  \<open>encrypt\<close> draws a fresh 12-byte iv and encrypts the serialised value.
  \<open>encrypt_text\<close> is the same function on a value that is already serialised.
\<close>

definition encrypt_text :: "platform \<Rightarrow> bytes \<Rightarrow> bytes \<Rightarrow> (bytes \<times> bytes) io" where
  "encrypt_text P key encodedData =
     andThen (getRandomValues 12) (\<lambda>iv'.
     ret (AES_GCM_encrypt P key iv' encodedData, iv'))"

definition encrypt :: "platform \<Rightarrow> bytes \<Rightarrow> VaultData \<Rightarrow> (bytes \<times> bytes) io" where
  "encrypt P key data = encrypt_text P key (JSON_stringify P data)"

definition decrypt :: "platform \<Rightarrow> bytes \<Rightarrow> bytes \<Rightarrow> bytes \<Rightarrow> error + VaultData" where
  "decrypt P key encryptedData' iv' =
     (case AES_GCM_decrypt P key iv' encryptedData' of
        None \<Rightarrow> Inl OperationError
      | Some decryptedBuffer \<Rightarrow>
          (case JSON_parse P decryptedBuffer of
             None \<Rightarrow> Inl SyntaxError
           | Some v \<Rightarrow> Inr v))"

section \<open>storage.ts: the object store of encrypted vaults\<close>

definition tick :: "world \<Rightarrow> world" where
  "tick w = w\<lparr>io_n := Suc (io_n w)\<rparr>"

text \<open>
  One call to IndexedDB: \<open>initDatabase\<close> rejects with its own message, the request
  rejects with the message of the calling function, or the request runs.
\<close>

definition idb_call :: "string \<Rightarrow> (world \<Rightarrow> 'a \<times> world) \<Rightarrow> 'a io" where
  "idb_call msg request w =
     (case io w (io_n w) of
        OpenFails \<Rightarrow> (Inl (Error ''Failed to open database''), tick w)
      | RequestFails \<Rightarrow> (Inl (Error msg), tick w)
      | IoOk \<Rightarrow> (case request (tick w) of (a, w') \<Rightarrow> (Inr a, w')))"

text \<open>
  The store has key path \<open>id\<close>: \<open>put\<close> files the record under its own id. The
  service reads what it finds as an \<open>EncryptedVault\<close>, as the return type of \<open>getVault\<close>
  asserts; stored values of any other shape are outside this typed view of the store
  (the import of a backup, below, works on untyped values).
\<close>

definition saveVault :: "EncryptedVault \<Rightarrow> unit io" where
  "saveVault vault =
     idb_call ''Failed to save vault'' (\<lambda>w. ((), w\<lparr>vaults := (vaults w)(vid vault \<mapsto> vault)\<rparr>))"

definition getVault :: "string \<Rightarrow> EncryptedVault option io" where
  "getVault i = idb_call ''Failed to retrieve vault'' (\<lambda>w. (vaults w i, w))"

definition deleteVault :: "string \<Rightarrow> unit io" where
  "deleteVault i =
     idb_call ''Failed to delete vault'' (\<lambda>w. ((), w\<lparr>vaults := (vaults w)(i := None)\<rparr>))"

section \<open>vault.ts: the vault service\<close>

definition defaultVaultData :: VaultData where
  "defaultVaultData =
     \<lparr>credentials = [],
      settings = Some \<lparr>autoLockTimeout = Some (Num 15),
                       categories = Some [''Login'', ''Financial'', ''Personal'', ''Work''],
                       defaultCategory = Some ''Login''\<rparr>\<rparr>"

definition createVault :: "platform \<Rightarrow> string \<Rightarrow> string \<Rightarrow> string io" where
  "createVault P name' masterPassword =
     andThen (liftS randomUUID) (\<lambda>i.
     let vaultData = defaultVaultData in
     andThen (generateKeyFromPassword P masterPassword None) (\<lambda>(key, salt').
     andThen (encrypt P key vaultData) (\<lambda>(encryptedData', iv').
     andThen (liftS Date_now) (\<lambda>now.
     let encryptedVault =
           \<lparr>vid = i, name = name', createdAt = now, lastAccessed = now, lastModified = now,
            encryptedData = encodeBase64 P encryptedData',
            iv = encodeBase64 P iv',
            salt = encodeBase64 P salt'\<rparr> in
     andThen (saveVault encryptedVault) (\<lambda>_.
     ret i)))))"

text \<open>The body of the \<open>try\<close> block of \<open>openVault\<close>.\<close>

definition openVault_try :: "platform \<Rightarrow> EncryptedVault \<Rightarrow> string \<Rightarrow> (Vault \<times> VaultData) io" where
  "openVault_try P encryptedVault masterPassword =
     andThen (orThrow (decodeBase64 P (encryptedData encryptedVault)) TypeError) (\<lambda>encryptedData'.
     andThen (orThrow (decodeBase64 P (iv encryptedVault)) TypeError) (\<lambda>iv'.
     andThen (orThrow (decodeBase64 P (salt encryptedVault)) TypeError) (\<lambda>salt'.
     andThen (generateKeyFromPassword P masterPassword (Some salt')) (\<lambda>(key, _).
     andThen (liftE (decrypt P key encryptedData' iv')) (\<lambda>vaultData.
     andThen (liftS Date_now) (\<lambda>now.
     let vault = \<lparr>vid = vid encryptedVault, name = name encryptedVault,
                  createdAt = createdAt encryptedVault, lastAccessed = now,
                  lastModified = lastModified encryptedVault\<rparr> in
     andThen (saveVault (encryptedVault\<lparr>lastAccessed := lastAccessed vault\<rparr>)) (\<lambda>_.
     ret (vault, vaultData))))))))"

definition openVault :: "platform \<Rightarrow> string \<Rightarrow> string \<Rightarrow> (Vault \<times> VaultData) io" where
  "openVault P i masterPassword =
     andThen (getVault i) (\<lambda>found.
     case found of
       None \<Rightarrow> throw (Error ''Vault not found'')
     | Some encryptedVault \<Rightarrow>
         catchAll (openVault_try P encryptedVault masterPassword)
           (Error ''Incorrect master password or corrupted data''))"

text \<open>
  \<open>updateVault\<close> on a value that is already serialised; \<open>newName || encryptedVault.name\<close>
  keeps the old name when \<open>newName\<close> is \<open>undefined\<close> or the empty string.
\<close>

definition updateVault_try ::
  "platform \<Rightarrow> EncryptedVault \<Rightarrow> string \<Rightarrow> bytes \<Rightarrow> string option \<Rightarrow> Vault io" where
  "updateVault_try P encryptedVault masterPassword encodedData newName =
     andThen (orThrow (decodeBase64 P (salt encryptedVault)) TypeError) (\<lambda>salt'.
     andThen (generateKeyFromPassword P masterPassword (Some salt')) (\<lambda>(key, _).
     andThen (encrypt_text P key encodedData) (\<lambda>(encryptedData', iv').
     andThen (liftS Date_now) (\<lambda>now.
     let updatedVault = encryptedVault
           \<lparr>name := (case newName of
                        None \<Rightarrow> name encryptedVault
                      | Some n \<Rightarrow> if n = [] then name encryptedVault else n),
            encryptedData := encodeBase64 P encryptedData',
            iv := encodeBase64 P iv',
            lastModified := now,
            lastAccessed := now\<rparr> in
     andThen (saveVault updatedVault) (\<lambda>_.
     ret \<lparr>vid = vid updatedVault, name = name updatedVault,
          createdAt = createdAt updatedVault, lastAccessed = lastAccessed updatedVault,
          lastModified = lastModified updatedVault\<rparr>)))))"

definition updateVault_text ::
  "platform \<Rightarrow> string \<Rightarrow> string \<Rightarrow> bytes \<Rightarrow> string option \<Rightarrow> Vault io" where
  "updateVault_text P i masterPassword encodedData newName =
     andThen (getVault i) (\<lambda>found.
     case found of
       None \<Rightarrow> throw (Error ''Vault not found'')
     | Some encryptedVault \<Rightarrow>
         catchAll (updateVault_try P encryptedVault masterPassword encodedData newName)
           (Error ''Failed to update vault''))"

definition updateVault ::
  "platform \<Rightarrow> string \<Rightarrow> string \<Rightarrow> VaultData \<Rightarrow> string option \<Rightarrow> Vault io" where
  "updateVault P i masterPassword data newName =
     updateVault_text P i masterPassword (JSON_stringify P data) newName"

definition removeVault :: "string \<Rightarrow> unit io" where
  "removeVault i = deleteVault i"

definition changeMasterPassword :: "platform \<Rightarrow> string \<Rightarrow> string \<Rightarrow> string \<Rightarrow> unit io" where
  "changeMasterPassword P i currentPassword newPassword =
     andThen (openVault P i currentPassword) (\<lambda>(_, data).
     andThen (generateKeyFromPassword P newPassword None) (\<lambda>(key, salt').
     andThen (encrypt P key data) (\<lambda>(encryptedData', iv').
     andThen (getVault i) (\<lambda>found.
     case found of
       None \<Rightarrow> throw (Error ''Vault not found'')
     | Some existingVault \<Rightarrow>
         andThen (liftS Date_now) (\<lambda>now.
         let updatedVault = existingVault
               \<lparr>encryptedData := encodeBase64 P encryptedData',
                iv := encodeBase64 P iv',
                salt := encodeBase64 P salt',
                lastModified := now,
                lastAccessed := now\<rparr> in
         saveVault updatedVault)))))"

definition addCredential ::
  "platform \<Rightarrow> string \<Rightarrow> string \<Rightarrow> CredentialFields \<Rightarrow> Credential io" where
  "addCredential P vaultId masterPassword credential =
     andThen (openVault P vaultId masterPassword) (\<lambda>(_, data).
     andThen (liftS Date_now) (\<lambda>now.
     andThen (liftS randomUUID) (\<lambda>newId.
     let newCredential =
           \<lparr>title = title credential, username = username credential,
            password = password credential, url = url credential,
            c_notes = c_notes credential, category = category credential,
            tags = tags credential,
            cid = newId, c_lastModified = Num now, c_createdAt = Num now\<rparr>;
         data' = data\<lparr>credentials := credentials data @ [newCredential]\<rparr> in
     andThen (updateVault P vaultId masterPassword data' None) (\<lambda>_.
     ret newCredential))))"

text \<open>
  \<open>Partial<Omit<Credential, "id" | "createdAt">>\<close>: \<open>None\<close> is a key that is absent. For
  the optional fields a key can also be present with the value \<open>undefined\<close>, which the
  spread copies: \<open>Some None\<close>. A \<open>lastModified\<close> among the updates is overwritten by
  the clock, so it is left out.
\<close>

record CredentialUpdates =
  u_title :: "string option"
  u_username :: "string option"
  u_password :: "string option"
  u_url :: "string option option"
  u_notes :: "string option option"
  u_category :: "string option option"
  u_tags :: "string list option option"

definition orElse :: "'a option \<Rightarrow> 'a \<Rightarrow> 'a" where
  "orElse x d = (case x of None \<Rightarrow> d | Some a \<Rightarrow> a)"

fun findIndex :: "('a \<Rightarrow> bool) \<Rightarrow> 'a list \<Rightarrow> nat option" where
  "findIndex p [] = None"
| "findIndex p (x # xs) = (if p x then Some 0 else map_option Suc (findIndex p xs))"

definition updateCredential ::
  "platform \<Rightarrow> string \<Rightarrow> string \<Rightarrow> string \<Rightarrow> CredentialUpdates \<Rightarrow> Credential io" where
  "updateCredential P vaultId masterPassword credentialId updates =
     andThen (openVault P vaultId masterPassword) (\<lambda>(_, data).
     case findIndex (\<lambda>c. cid c = credentialId) (credentials data) of
       None \<Rightarrow> throw (Error ''Credential not found'')
     | Some index \<Rightarrow>
         andThen (liftS Date_now) (\<lambda>now.
         let old = credentials data ! index;
             updatedCredential = old
               \<lparr>title := orElse (u_title updates) (title old),
                username := orElse (u_username updates) (username old),
                password := orElse (u_password updates) (password old),
                url := orElse (u_url updates) (url old),
                c_notes := orElse (u_notes updates) (c_notes old),
                category := orElse (u_category updates) (category old),
                tags := orElse (u_tags updates) (tags old),
                c_lastModified := Num now\<rparr>;
             data' = data\<lparr>credentials := (credentials data)[index := updatedCredential]\<rparr> in
         andThen (updateVault P vaultId masterPassword data' None) (\<lambda>_.
         ret updatedCredential)))"

definition deleteCredential :: "platform \<Rightarrow> string \<Rightarrow> string \<Rightarrow> string \<Rightarrow> unit io" where
  "deleteCredential P vaultId masterPassword credentialId =
     andThen (openVault P vaultId masterPassword) (\<lambda>(_, data).
     let data' = data\<lparr>credentials := filter (\<lambda>c. cid c \<noteq> credentialId) (credentials data)\<rparr> in
     andThen (updateVault P vaultId masterPassword data' None) (\<lambda>_.
     ret ()))"

text \<open>
  \<open>{...data.settings, ...settings}\<close>: a key of \<open>settings\<close> wins, a key it lacks is
  taken from \<open>data.settings\<close>; spreading \<open>undefined\<close> contributes nothing.
\<close>

definition spread_settings :: "VaultSettings option \<Rightarrow> VaultSettings option \<Rightarrow> VaultSettings" where
  "spread_settings old new =
     (let empty = \<lparr>autoLockTimeout = None, categories = None, defaultCategory = None\<rparr>;
          a = orElse old empty;
          b = orElse new empty in
      \<lparr>autoLockTimeout = (case autoLockTimeout b of None \<Rightarrow> autoLockTimeout a | Some x \<Rightarrow> Some x),
       categories = (case categories b of None \<Rightarrow> categories a | Some x \<Rightarrow> Some x),
       defaultCategory = (case defaultCategory b of None \<Rightarrow> defaultCategory a | Some x \<Rightarrow> Some x)\<rparr>)"

definition updateVaultSettings ::
  "platform \<Rightarrow> string \<Rightarrow> string \<Rightarrow> VaultSettings option \<Rightarrow> unit io" where
  "updateVaultSettings P vaultId masterPassword settings' =
     andThen (openVault P vaultId masterPassword) (\<lambda>(_, data).
     let data' = data\<lparr>settings := Some (spread_settings (settings data) settings')\<rparr> in
     andThen (updateVault P vaultId masterPassword data' None) (\<lambda>_.
     ret ()))"

section \<open>context.tsx: the session that the user interface holds\<close>

record session =
  currentVault :: "Vault option"
  vaultData :: "VaultData option"
  masterPassword :: "string option"
  isLocked :: bool
  isLoading :: bool
  error_msg :: "string option"

text \<open>\<open>JSON.stringify(null)\<close>, encoded: the text \<open>null\<close>.\<close>

definition null_text :: bytes where
  "null_text = [110, 117, 108, 108]"

definition openExistingVault ::
  "platform \<Rightarrow> string \<Rightarrow> string \<Rightarrow> session \<Rightarrow> world \<Rightarrow> (error + unit) \<times> session \<times> world" where
  "openExistingVault P i password' s w =
     (let s1 = s\<lparr>isLoading := True, error_msg := None\<rparr> in
      case openVault P i password' w of
        (Inr (vault, data), w') \<Rightarrow>
          (Inr (), s1\<lparr>currentVault := Some vault, vaultData := Some data,
                      masterPassword := Some password', isLocked := False,
                      isLoading := False\<rparr>, w')
      | (Inl e, w') \<Rightarrow>
          (Inl e, s1\<lparr>error_msg := Some ''Failed to open vault. Incorrect password?'',
                     isLoading := False\<rparr>, w'))"

text \<open>
  The \<open>changeMasterPassword\<close> of the context. It calls \<open>updateVault\<close> with the
  current password and the session's \<open>vaultData!\<close> (the assertion is erased at run
  time, so \<open>null\<close> is passed on), then records the new password in the session.
\<close>

definition ctx_changeMasterPassword ::
  "platform \<Rightarrow> string \<Rightarrow> string \<Rightarrow> session \<Rightarrow> world \<Rightarrow> (error + unit) \<times> session \<times> world" where
  "ctx_changeMasterPassword P currentPassword newPassword s w =
     (let s1 = s\<lparr>isLoading := True, error_msg := None\<rparr> in
      case (case currentVault s1 of
              None \<Rightarrow> throw (Error ''No vault is open'')
            | Some cv \<Rightarrow>
                updateVault_text P (vid cv) currentPassword
                  (case vaultData s1 of None \<Rightarrow> null_text | Some d \<Rightarrow> JSON_stringify P d)
                  None) w of
        (Inr _, w') \<Rightarrow>
          (Inr (), s1\<lparr>masterPassword := Some newPassword, isLoading := False\<rparr>, w')
      | (Inl e, w') \<Rightarrow>
          (Inl e, s1\<lparr>error_msg := Some ''Failed to change master password'',
                     isLoading := False\<rparr>, w'))"

section \<open>storage.ts: importing a backup\<close>

text \<open>
  \<open>importData\<close> receives whatever \<open>JSON.parse\<close> returns, so this part works on
  untyped JSON values. An object is the list of its own properties, with distinct names;
  the order of the list carries no meaning (the code looks properties up and copies
  them, and never depends on their order).
  Numbers are integers, which covers every number a backup holds (timestamps, timeouts,
  the version).
\<close>

datatype json =
    JNull
  | JBool bool
  | JNum int
  | JStr string
  | JArr "json list"
  | JObj "(string \<times> json) list"

fun truthy :: "json \<Rightarrow> bool" where
  "truthy JNull = False"
| "truthy (JBool b) = b"
| "truthy (JNum n) = (n \<noteq> 0)"
| "truthy (JStr s) = (s \<noteq> [])"
| "truthy (JArr _) = True"
| "truthy (JObj _) = True"

fun isArray :: "json \<Rightarrow> bool" where
  "isArray (JArr _) = True"
| "isArray _ = False"

text \<open>
  \<open>value.name\<close> for the names the code reads (\<open>vaults\<close>, \<open>settings\<close>): \<open>Inl TypeError\<close>
  on \<open>null\<close>, \<open>Inr None\<close> for \<open>undefined\<close>.
\<close>

fun get_prop :: "json \<Rightarrow> string \<Rightarrow> error + json option" where
  "get_prop JNull k = Inl TypeError"
| "get_prop (JObj ps) k = Inr (map_of ps k)"
| "get_prop _ k = Inr None"

text \<open>
  The values IndexedDB accepts as keys: numbers, strings and arrays of keys.
\<close>

fun valid_key :: "json \<Rightarrow> bool" where
  "valid_key (JNum _) = True"
| "valid_key (JStr _) = True"
| "valid_key (JArr xs) = list_all valid_key xs"
| "valid_key _ = False"

text \<open>
  Evaluating the key path \<open>id\<close> on a value: it must be an object with an own property
  \<open>id\<close> that holds a valid key.
\<close>

fun key_of :: "json \<Rightarrow> json option" where
  "key_of (JObj ps) =
     (case map_of ps ''id'' of
        None \<Rightarrow> None
      | Some k \<Rightarrow> if valid_key k then Some k else None)"
| "key_of _ = None"

record raw_world =
  vault_objs :: "json \<rightharpoonup> json"
  setting_objs :: "json \<rightharpoonup> json"
  raw_io :: "nat \<Rightarrow> io_outcome"
  raw_io_n :: nat

type_synonym 'a raw_io = "raw_world \<Rightarrow> (error + 'a) \<times> raw_world"

text \<open>
  \<open>store.put(value)\<close> after \<open>initDatabase\<close>: \<open>put\<close> throws \<open>DataError\<close> before any
  request exists when the value has no valid key.
\<close>

definition raw_put ::
  "string \<Rightarrow> (raw_world \<Rightarrow> json \<Rightarrow> json \<Rightarrow> raw_world) \<Rightarrow> json \<Rightarrow> unit raw_io" where
  "raw_put msg store v w =
     (let w1 = w\<lparr>raw_io_n := Suc (raw_io_n w)\<rparr> in
      case raw_io w (raw_io_n w) of
        OpenFails \<Rightarrow> (Inl (Error ''Failed to open database''), w1)
      | outcome \<Rightarrow>
          (case key_of v of
             None \<Rightarrow> (Inl DataError, w1)
           | Some k \<Rightarrow>
               if outcome = RequestFails then (Inl (Error msg), w1)
               else (Inr (), store w1 k v)))"

definition saveVault_raw :: "json \<Rightarrow> unit raw_io" where
  "saveVault_raw vault =
     raw_put ''Failed to save vault'' (\<lambda>w k v. w\<lparr>vault_objs := (vault_objs w)(k \<mapsto> v)\<rparr>) vault"

fun digits :: "nat \<Rightarrow> string" where
  "digits n =
     (if n < 10 then [char_of (48 + n)] else digits (n div 10) @ [char_of (48 + n mod 10)])"

text \<open>
  The own enumerable properties that \<open>{...value}\<close> copies: those of an object, the
  indexed elements of an array or a string, none of anything else.
\<close>

fun spread :: "json \<Rightarrow> (string \<times> json) list" where
  "spread (JObj ps) = ps"
| "spread (JArr xs) = map (\<lambda>i. (digits i, xs ! i)) [0 ..< length xs]"
| "spread (JStr s) = map (\<lambda>i. (digits i, JStr [s ! i])) [0 ..< length s]"
| "spread _ = []"

text \<open>
  \<open>{ id: 'app-settings', ...settings }\<close>: a property of \<open>settings\<close> called \<open>id\<close>
  replaces the first one, in place.
\<close>

definition with_app_settings_id :: "json \<Rightarrow> json" where
  "with_app_settings_id settings' =
     (let ps = spread settings' in
      JObj ((''id'', orElse (map_of ps ''id'') (JStr ''app-settings'')) #
            filter (\<lambda>p. fst p \<noteq> ''id'') ps))"

definition saveSettings_raw :: "json \<Rightarrow> unit raw_io" where
  "saveSettings_raw settings' =
     raw_put ''Failed to save settings''
       (\<lambda>w k v. w\<lparr>setting_objs := (setting_objs w)(k \<mapsto> v)\<rparr>)
       (with_app_settings_id settings')"

fun saveAll :: "json list \<Rightarrow> unit raw_io" where
  "saveAll [] w = (Inr (), w)"
| "saveAll (vault # rest) w =
     (case saveVault_raw vault w of
        (Inl e, w') \<Rightarrow> (Inl e, w')
      | (Inr _, w') \<Rightarrow> saveAll rest w')"

text \<open>\<open>undefined\<close> is falsy and is not an array.\<close>

definition truthy_opt :: "json option \<Rightarrow> bool" where
  "truthy_opt v = (case v of None \<Rightarrow> False | Some x \<Rightarrow> truthy x)"

definition isArray_opt :: "json option \<Rightarrow> bool" where
  "isArray_opt v = (case v of None \<Rightarrow> False | Some x \<Rightarrow> isArray x)"

fun elements :: "json option \<Rightarrow> json list" where
  "elements (Some (JArr xs)) = xs"
| "elements _ = []"

definition importData :: "(string \<Rightarrow> json option) \<Rightarrow> string \<Rightarrow> unit raw_io" where
  "importData JSON_parse_any jsonData w =
     (case JSON_parse_any jsonData of
        None \<Rightarrow> (Inl SyntaxError, w)
      | Some data \<Rightarrow>
          (case get_prop data ''vaults'' of
             Inl e \<Rightarrow> (Inl e, w)
           | Inr vaults' \<Rightarrow>
               if \<not> truthy_opt vaults' \<or> \<not> isArray_opt vaults'
               then (Inl (Error ''Invalid backup format''), w)
               else (case saveAll (elements vaults') w of
                       (Inl e, w') \<Rightarrow> (Inl e, w')
                     | (Inr _, w') \<Rightarrow>
                         (case get_prop data ''settings'' of
                            Inl e \<Rightarrow> (Inl e, w')
                          | Inr None \<Rightarrow> (Inr (), w')
                          | Inr (Some settings') \<Rightarrow>
                              if truthy settings'
                              then saveSettings_raw settings' w'
                              else (Inr (), w')))))"

section \<open>A reference platform\<close>

text \<open>
  An executable instance of \<open>platform\<close> that meets \<open>platform_ok\<close>: a length-prefixed
  binary encoding of the JSON image of the value stands in for JSON, a cipher that
  prepends key and iv (and checks them on decryption) for AES-GCM, the bytes of the
  password appended to the salt for PBKDF2, and one character per byte for Base64. It
  shows that the assumptions made of the platform can be met, and gives the theorems
  concrete instances.
\<close>

type_synonym 'a dec = "bytes \<Rightarrow> ('a \<times> bytes) option"

definition codec :: "('a \<Rightarrow> bytes) \<Rightarrow> 'a dec \<Rightarrow> bool" where
  "codec e d \<longleftrightarrow> (\<forall>x r. d (e x @ r) = Some (x, r))"

definition enc_nat :: "nat \<Rightarrow> bytes" where
  "enc_nat n = replicate n 1 @ [0]"

fun count_ones :: "nat \<Rightarrow> nat dec" where
  "count_ones acc [] = None"
| "count_ones acc (b # bs) = (if b = 0 then Some (acc, bs) else count_ones (Suc acc) bs)"

definition dec_nat :: "nat dec" where
  "dec_nat = count_ones 0"

definition next_field :: "'a dec \<Rightarrow> ('a \<Rightarrow> 'b dec) \<Rightarrow> 'b dec" where
  "next_field d f xs = (case d xs of None \<Rightarrow> None | Some (a, r) \<Rightarrow> f a r)"

definition byte_of_char :: "char \<Rightarrow> 8 word" where
  "byte_of_char c = of_nat (of_char c)"

definition char_of_byte :: "8 word \<Rightarrow> char" where
  "char_of_byte b = char_of (unat b)"

definition enc_str :: "string \<Rightarrow> bytes" where
  "enc_str s = enc_nat (length s) @ map byte_of_char s"

definition dec_str :: "string dec" where
  "dec_str = next_field dec_nat (\<lambda>n xs.
     if n \<le> length xs then Some (map char_of_byte (take n xs), drop n xs) else None)"

definition enc_int :: "int \<Rightarrow> bytes" where
  "enc_int i = (if i < 0 then 1 else 0) # enc_nat (nat \<bar>i\<bar>)"

fun dec_int :: "int dec" where
  "dec_int [] = None"
| "dec_int (s # xs) =
     next_field dec_nat (\<lambda>m r. Some (if s = 0 then int m else - int m, r)) xs"

fun enc_number :: "number \<Rightarrow> bytes" where
  "enc_number (Num i) = 0 # enc_int i"
| "enc_number Null = [1]"
| "enc_number NaN = [2]"
| "enc_number PosInfinity = [3]"
| "enc_number NegInfinity = [4]"

fun dec_number :: "number dec" where
  "dec_number [] = None"
| "dec_number (t # xs) =
     (if t = 0 then next_field dec_int (\<lambda>i r. Some (Num i, r)) xs
      else if t = 1 then Some (Null, xs)
      else if t = 2 then Some (NaN, xs)
      else if t = 3 then Some (PosInfinity, xs)
      else if t = 4 then Some (NegInfinity, xs)
      else None)"

fun enc_opt :: "('a \<Rightarrow> bytes) \<Rightarrow> 'a option \<Rightarrow> bytes" where
  "enc_opt e None = [0]"
| "enc_opt e (Some x) = 1 # e x"

fun dec_opt :: "'a dec \<Rightarrow> 'a option dec" where
  "dec_opt d [] = None"
| "dec_opt d (t # xs) =
     (if t = 0 then Some (None, xs)
      else (case d xs of None \<Rightarrow> None | Some (a, r) \<Rightarrow> Some (Some a, r)))"

definition enc_list :: "('a \<Rightarrow> bytes) \<Rightarrow> 'a list \<Rightarrow> bytes" where
  "enc_list e xs = enc_nat (length xs) @ concat (map e xs)"

fun dec_n :: "'a dec \<Rightarrow> nat \<Rightarrow> 'a list dec" where
  "dec_n d 0 xs = Some ([], xs)"
| "dec_n d (Suc n) xs =
     (case d xs of
        None \<Rightarrow> None
      | Some (a, r) \<Rightarrow> (case dec_n d n r of None \<Rightarrow> None | Some (as, r') \<Rightarrow> Some (a # as, r')))"

definition dec_list :: "'a dec \<Rightarrow> 'a list dec" where
  "dec_list d = next_field dec_nat (dec_n d)"

definition enc_cred :: "Credential \<Rightarrow> bytes" where
  "enc_cred c =
     enc_str (title c) @ enc_str (username c) @ enc_str (password c) @
     enc_opt enc_str (url c) @ enc_opt enc_str (c_notes c) @ enc_opt enc_str (category c) @
     enc_opt (enc_list enc_str) (tags c) @
     enc_str (cid c) @ enc_number (c_lastModified c) @ enc_number (c_createdAt c)"

definition dec_cred :: "Credential dec" where
  "dec_cred =
     next_field dec_str (\<lambda>t.
     next_field dec_str (\<lambda>u.
     next_field dec_str (\<lambda>p.
     next_field (dec_opt dec_str) (\<lambda>l.
     next_field (dec_opt dec_str) (\<lambda>n.
     next_field (dec_opt dec_str) (\<lambda>g.
     next_field (dec_opt (dec_list dec_str)) (\<lambda>ts.
     next_field dec_str (\<lambda>i.
     next_field dec_number (\<lambda>m.
     next_field dec_number (\<lambda>c r.
       Some (\<lparr>title = t, username = u, password = p, url = l, c_notes = n, category = g,
              tags = ts, cid = i, c_lastModified = m, c_createdAt = c\<rparr>, r)))))))))))"

definition enc_settings :: "VaultSettings \<Rightarrow> bytes" where
  "enc_settings s =
     enc_opt enc_number (autoLockTimeout s) @ enc_opt (enc_list enc_str) (categories s) @
     enc_opt enc_str (defaultCategory s)"

definition dec_settings :: "VaultSettings dec" where
  "dec_settings =
     next_field (dec_opt dec_number) (\<lambda>a.
     next_field (dec_opt (dec_list dec_str)) (\<lambda>c.
     next_field (dec_opt dec_str) (\<lambda>d r.
       Some (\<lparr>autoLockTimeout = a, categories = c, defaultCategory = d\<rparr>, r))))"

definition enc_data :: "VaultData \<Rightarrow> bytes" where
  "enc_data v = enc_list enc_cred (credentials v) @ enc_opt enc_settings (settings v)"

definition dec_data :: "VaultData dec" where
  "dec_data =
     next_field (dec_list dec_cred) (\<lambda>cs.
     next_field (dec_opt dec_settings) (\<lambda>s r.
       Some (\<lparr>credentials = cs, settings = s\<rparr>, r)))"

text \<open>
  The reference serialiser writes the JSON image of the value; the reference parser
  reads a number that JSON cannot carry as \<open>null\<close>.
\<close>

definition ref_stringify :: "VaultData \<Rightarrow> bytes" where
  "ref_stringify v = enc_data (json_image v)"

definition ref_parse :: "bytes \<Rightarrow> VaultData option" where
  "ref_parse b = (case dec_data b of Some (v, []) \<Rightarrow> Some (json_image v) | _ \<Rightarrow> None)"

definition ref_encrypt :: "bytes \<Rightarrow> bytes \<Rightarrow> bytes \<Rightarrow> bytes" where
  "ref_encrypt key iv' plaintext = key @ iv' @ plaintext"

definition ref_decrypt :: "bytes \<Rightarrow> bytes \<Rightarrow> bytes \<Rightarrow> bytes option" where
  "ref_decrypt key iv' ciphertext =
     (let n = length key + length iv' in
      if take n ciphertext = key @ iv' then Some (drop n ciphertext) else None)"

definition ref_platform :: platform where
  "ref_platform =
     \<lparr>PBKDF2 = (\<lambda>pw s. s @ map byte_of_char pw),
      AES_GCM_encrypt = ref_encrypt,
      AES_GCM_decrypt = ref_decrypt,
      JSON_stringify = ref_stringify,
      JSON_parse = ref_parse,
      encodeBase64 = map char_of_byte,
      decodeBase64 = (\<lambda>s. Some (map byte_of_char s))\<rparr>"

text \<open>
  A world with an empty store in which no IndexedDB call fails: the \<open>n\<close>-th random
  byte is \<open>n\<close>, the \<open>n\<close>-th UUID is \<open>n + 1\<close> letters \<open>u\<close>, the \<open>n\<close>-th clock reading
  is \<open>n + 1\<close>.
\<close>

definition world0 :: world where
  "world0 =
     \<lparr>vaults = Map.empty,
      entropy = of_nat, drawn = 0,
      uuids = (\<lambda>n. replicate (Suc n) CHR ''u''), uuid_n = 0,
      clock = (\<lambda>n. int n + 1), clock_n = 0,
      io = (\<lambda>_. IoOk), io_n = 0\<rparr>"

section \<open>Auxiliary definitions for the statements\<close>

text \<open>
  What \<open>openVault\<close> decrypts, as a function of the stored record and the password
  alone: the three Base64 fields decoded, the key derived from the stored salt, and
  \<open>decrypt\<close>.
\<close>

definition unlock :: "platform \<Rightarrow> string \<Rightarrow> EncryptedVault \<Rightarrow> error + VaultData" where
  "unlock P pw encryptedVault =
     (case decodeBase64 P (encryptedData encryptedVault) of
        None \<Rightarrow> Inl TypeError
      | Some encryptedData' \<Rightarrow>
          (case decodeBase64 P (iv encryptedVault) of
             None \<Rightarrow> Inl TypeError
           | Some iv' \<Rightarrow>
               (case decodeBase64 P (salt encryptedVault) of
                  None \<Rightarrow> Inl TypeError
                | Some salt' \<Rightarrow> decrypt P (PBKDF2 P pw salt') encryptedData' iv')))"

text \<open>The public metadata of a stored record.\<close>

definition meta :: "EncryptedVault \<Rightarrow> Vault" where
  "meta ev = \<lparr>vid = vid ev, name = name ev, createdAt = createdAt ev,
              lastAccessed = lastAccessed ev, lastModified = lastModified ev\<rparr>"

text \<open>The next clock reading and the next twelve random bytes of a world.\<close>

definition now :: "world \<Rightarrow> int" where
  "now w = clock w (clock_n w)"

definition fresh_iv :: "world \<Rightarrow> bytes" where
  "fresh_iv w = map (entropy w) [drawn w ..< drawn w + 12]"

definition fresh_salt :: "world \<Rightarrow> bytes" where
  "fresh_salt w = map (entropy w) [drawn w ..< drawn w + 16]"

text \<open>The record and the world that a successful \<open>openVault\<close> leaves.\<close>

definition accessed :: "EncryptedVault \<Rightarrow> int \<Rightarrow> EncryptedVault" where
  "accessed ev t = ev\<lparr>lastAccessed := t\<rparr>"

definition after_open :: "EncryptedVault \<Rightarrow> world \<Rightarrow> world" where
  "after_open ev w =
     w\<lparr>vaults := (vaults w)(vid ev \<mapsto> accessed ev (now w)),
       clock_n := Suc (clock_n w), io_n := Suc (Suc (io_n w))\<rparr>"

text \<open>The record and the world that a successful \<open>updateVault\<close> leaves.\<close>

definition rewritten ::
  "platform \<Rightarrow> EncryptedVault \<Rightarrow> bytes \<Rightarrow> bytes \<Rightarrow> string option \<Rightarrow> bytes \<Rightarrow> int \<Rightarrow>
   EncryptedVault" where
  "rewritten P ev key encodedData newName iv' t =
     ev\<lparr>name := (case newName of None \<Rightarrow> name ev | Some n \<Rightarrow> if n = [] then name ev else n),
        encryptedData := encodeBase64 P (AES_GCM_encrypt P key iv' encodedData),
        iv := encodeBase64 P iv',
        lastModified := t,
        lastAccessed := t\<rparr>"

definition after_update :: "EncryptedVault \<Rightarrow> world \<Rightarrow> world" where
  "after_update ev' w =
     w\<lparr>vaults := (vaults w)(vid ev' \<mapsto> ev'),
       drawn := drawn w + 12,
       clock_n := Suc (clock_n w), io_n := Suc (Suc (io_n w))\<rparr>"

text \<open>Every record of the store is filed under its own id, as the key path makes it.\<close>

definition store_wf :: "world \<Rightarrow> bool" where
  "store_wf w \<longleftrightarrow> (\<forall>i ev. vaults w i = Some ev \<longrightarrow> vid ev = i)"

text \<open>Two choices of character classes.\<close>

definition only_uppercase :: PasswordOptions where
  "only_uppercase = \<lparr>uppercase = True, lowercase = False, numbers = False, symbols = False\<rparr>"

definition no_class :: PasswordOptions where
  "no_class = \<lparr>uppercase = False, lowercase = False, numbers = False, symbols = False\<rparr>"

text \<open>The record and the world that a successful \<open>createVault\<close> leaves.\<close>

definition created :: "platform \<Rightarrow> string \<Rightarrow> string \<Rightarrow> world \<Rightarrow> EncryptedVault" where
  "created P name' pw w =
     (let salt' = fresh_salt w;
          iv' = fresh_iv (w\<lparr>drawn := drawn w + 16\<rparr>) in
      \<lparr>vid = uuids w (uuid_n w), name = name', createdAt = now w, lastAccessed = now w,
       lastModified = now w,
       encryptedData = encodeBase64 P
         (AES_GCM_encrypt P (PBKDF2 P pw salt') iv' (JSON_stringify P defaultVaultData)),
       iv = encodeBase64 P iv',
       salt = encodeBase64 P salt'\<rparr>)"

definition after_create :: "EncryptedVault \<Rightarrow> world \<Rightarrow> world" where
  "after_create ev w =
     w\<lparr>vaults := (vaults w)(vid ev \<mapsto> ev),
       drawn := drawn w + 28, uuid_n := Suc (uuid_n w),
       clock_n := Suc (clock_n w), io_n := Suc (io_n w)\<rparr>"

text \<open>
  The world after \<open>createVault("Personal", "hunter2")\<close> on the reference platform, the
  record it holds, and the same world with an IndexedDB that rejects its second request.
\<close>

definition vault_world :: world where
  "vault_world = snd (createVault ref_platform ''Personal'' ''hunter2'' world0)"

definition vault0 :: EncryptedVault where
  "vault0 = created ref_platform ''Personal'' ''hunter2'' world0"

definition flaky_world :: world where
  "flaky_world = vault_world\<lparr>io := (\<lambda>n. if n = 2 then RequestFails else IoOk)\<rparr>"

text \<open>
  Two ways a store can differ from an earlier one: only the \<open>lastAccessed\<close> of the
  record under \<open>i\<close> has changed (or nothing has), and one whole record has been filed
  under \<open>i\<close>.
\<close>

definition untouched_or_accessed :: "string \<Rightarrow> world \<Rightarrow> world \<Rightarrow> bool" where
  "untouched_or_accessed i w w' \<longleftrightarrow>
     vaults w' = vaults w \<or>
     (\<exists>ev t. vaults w i = Some ev \<and> vaults w' = (vaults w)(i \<mapsto> accessed ev t))"

definition rewrote :: "string \<Rightarrow> world \<Rightarrow> world \<Rightarrow> bool" where
  "rewrote i w w' \<longleftrightarrow> (\<exists>ev'. vid ev' = i \<and> vaults w' = (vaults w)(i \<mapsto> ev'))"

text \<open>
  The eight operations of the service as values, with the id of the vault each works
  on; \<open>run\<close> performs one and keeps only whether it succeeded.
\<close>

datatype operation =
    CreateVault string string
  | OpenVault string string
  | UpdateVault string string VaultData "string option"
  | ChangeMasterPassword string string string
  | AddCredential string string CredentialFields
  | UpdateCredential string string string CredentialUpdates
  | DeleteCredential string string string
  | UpdateVaultSettings string string "VaultSettings option"

definition discard :: "'a io \<Rightarrow> unit io" where
  "discard m w = (case m w of (Inl e, w') \<Rightarrow> (Inl e, w') | (Inr _, w') \<Rightarrow> (Inr (), w'))"

fun run :: "platform \<Rightarrow> operation \<Rightarrow> unit io" where
  "run P (CreateVault n pw) = discard (createVault P n pw)"
| "run P (OpenVault i pw) = discard (openVault P i pw)"
| "run P (UpdateVault i pw d n) = discard (updateVault P i pw d n)"
| "run P (ChangeMasterPassword i cur new) = discard (changeMasterPassword P i cur new)"
| "run P (AddCredential i pw c) = discard (addCredential P i pw c)"
| "run P (UpdateCredential i pw c u) = discard (updateCredential P i pw c u)"
| "run P (DeleteCredential i pw c) = discard (deleteCredential P i pw c)"
| "run P (UpdateVaultSettings i pw s) = discard (updateVaultSettings P i pw s)"

fun target :: "operation \<Rightarrow> world \<Rightarrow> string" where
  "target (CreateVault n pw) w = uuids w (uuid_n w)"
| "target (OpenVault i pw) w = i"
| "target (UpdateVault i pw d n) w = i"
| "target (ChangeMasterPassword i cur new) w = i"
| "target (AddCredential i pw c) w = i"
| "target (UpdateCredential i pw c u) w = i"
| "target (DeleteCredential i pw c) w = i"
| "target (UpdateVaultSettings i pw s) w = i"

fun opens_first :: "operation \<Rightarrow> bool" where
  "opens_first (CreateVault n pw) = False"
| "opens_first (OpenVault i pw) = False"
| "opens_first (UpdateVault i pw d n) = False"
| "opens_first _ = True"

definition no_updates :: CredentialUpdates where
  "no_updates = \<lparr>u_title = None, u_username = None, u_password = None, u_url = None,
                  u_notes = None, u_category = None, u_tags = None\<rparr>"

text \<open>
  The credential that \<open>addCredential\<close> builds, a vault's data with credentials appended,
  successive calls of \<open>addCredential\<close> on one vault (returning the credentials they
  created), and the world that one successful call leaves.
\<close>

definition new_credential :: "CredentialFields \<Rightarrow> string \<Rightarrow> int \<Rightarrow> Credential" where
  "new_credential c newId t =
     \<lparr>title = title c, username = username c, password = password c, url = url c,
      c_notes = c_notes c, category = category c, tags = tags c,
      cid = newId, c_lastModified = Num t, c_createdAt = Num t\<rparr>"



definition after_add :: "EncryptedVault \<Rightarrow> world \<Rightarrow> world" where
  "after_add ev' w =
     w\<lparr>vaults := (vaults w)(vid ev' \<mapsto> ev'),
       drawn := drawn w + 12, uuid_n := Suc (uuid_n w),
       clock_n := clock_n w + 3, io_n := io_n w + 4\<rparr>"


text \<open>The record that a successful \<open>changeMasterPassword\<close> of the service files.\<close>

definition rotated :: "platform \<Rightarrow> EncryptedVault \<Rightarrow> string \<Rightarrow> VaultData \<Rightarrow> world \<Rightarrow> EncryptedVault" where
  "rotated P ev newPassword d w =
     (let salt' = fresh_salt w;
          iv' = fresh_iv (w\<lparr>drawn := drawn w + 16\<rparr>) in
      ev\<lparr>encryptedData := encodeBase64 P
           (AES_GCM_encrypt P (PBKDF2 P newPassword salt') iv' (JSON_stringify P d)),
         iv := encodeBase64 P iv',
         salt := encodeBase64 P salt',
         lastModified := clock w (Suc (clock_n w)),
         lastAccessed := clock w (Suc (clock_n w))\<rparr>)"

text \<open>
  A session with no vault open; the session and the world after \<open>openExistingVault\<close>
  has opened the vault of \<open>vault_world\<close> with \<open>hunter2\<close>; and the record that the
  context's \<open>changeMasterPassword("hunter2", "s3cret")\<close> files from there.
\<close>

definition session0 :: session where
  "session0 = \<lparr>currentVault = None, vaultData = None, masterPassword = None,
                 isLocked = True, isLoading = False, error_msg = None\<rparr>"

definition opened_session :: session where
  "opened_session = fst (snd (openExistingVault ref_platform ''u'' ''hunter2'' session0 vault_world))"

definition opened_world :: world where
  "opened_world = snd (snd (openExistingVault ref_platform ''u'' ''hunter2'' session0 vault_world))"

definition stale :: EncryptedVault where
  "stale = rewritten ref_platform (accessed vault0 2)
             (PBKDF2 ref_platform ''hunter2'' (map byte_of_char (salt vault0)))
             (JSON_stringify ref_platform defaultVaultData) None (fresh_iv opened_world) 3"

text \<open>
  Filing one imported record under its key; the settings of a backup that
  \<open>if (data.settings)\<close> lets through; a \<open>JSON.parse\<close> that returns a given value.
\<close>

definition upsert :: "json \<Rightarrow> (json \<rightharpoonup> json) \<Rightarrow> (json \<rightharpoonup> json)" where
  "upsert v m = (case key_of v of None \<Rightarrow> m | Some k \<Rightarrow> m(k \<mapsto> v))"

definition included_settings :: "json \<Rightarrow> json option" where
  "included_settings data =
     (case get_prop data ''settings'' of
        Inr (Some st) \<Rightarrow> if truthy st then Some st else None
      | _ \<Rightarrow> None)"

definition always :: "json \<Rightarrow> string \<Rightarrow> json option" where
  "always data s = Some data"

text \<open>
  An IndexedDB that holds app settings and no vault, and four parsed backups: a
  well-formed one, one whose only record has no \<open>id\<close>, and one whose settings carry an
  \<open>id\<close> of their own.
\<close>

definition raw0 :: raw_world where
  "raw0 =
     \<lparr>vault_objs = Map.empty,
      setting_objs = [JStr ''app-settings'' \<mapsto>
                        JObj [(''id'', JStr ''app-settings''), (''darkMode'', JBool False)]],
      raw_io = (\<lambda>_. IoOk), raw_io_n = 0\<rparr>"

definition record1 :: json where
  "record1 = JObj [(''id'', JStr ''v1''), (''name'', JStr ''Personal'')]"

definition backup_ok :: json where
  "backup_ok = JObj [(''vaults'', JArr [record1]),
                     (''settings'', JObj [(''darkMode'', JBool True)])]"

definition backup_no_id :: json where
  "backup_no_id = JObj [(''vaults'', JArr [JObj [(''name'', JStr ''Personal'')]])]"

definition backup_settings_id :: json where
  "backup_settings_id =
     JObj [(''vaults'', JArr []),
           (''settings'', JObj [(''id'', JStr ''other''), (''darkMode'', JBool True)])]"


text \<open>
  The round trip through \<open>crypto.ts\<close>: derive a key from the password with a fresh salt,
  encrypt the value, derive the key again from the password and the salt that the first
  derivation returned, and decrypt with it and the iv that \<open>encrypt\<close> returned.
\<close>

definition round_trip :: "platform \<Rightarrow> string \<Rightarrow> VaultData \<Rightarrow> VaultData io" where
  "round_trip P p v =
     andThen (generateKeyFromPassword P p None) (\<lambda>(key, salt').
     andThen (encrypt P key v) (\<lambda>(encryptedData', iv').
     andThen (generateKeyFromPassword P p (Some salt')) (\<lambda>(key', _).
     liftE (decrypt P key' encryptedData' iv'))))"

text \<open>
  A value all of whose numbers are finite, and one that is not: an empty vault whose
  \<open>autoLockTimeout\<close> is \<open>NaN\<close>, with what comes back for it.
\<close>

fun is_finite :: "number \<Rightarrow> bool" where
  "is_finite (Num i) = True"
| "is_finite _ = False"

definition finite_numbers :: "VaultData \<Rightarrow> bool" where
  "finite_numbers v \<longleftrightarrow>
     list_all (\<lambda>c. is_finite (c_lastModified c) \<and> is_finite (c_createdAt c)) (credentials v) \<and>
     (case settings v of
        None \<Rightarrow> True
      | Some s \<Rightarrow> (case autoLockTimeout s of None \<Rightarrow> True | Some n \<Rightarrow> is_finite n))"

definition nan_data :: VaultData where
  "nan_data =
     \<lparr>credentials = [],
      settings = Some \<lparr>autoLockTimeout = Some NaN, categories = None, defaultCategory = None\<rparr>\<rparr>"

definition null_data :: VaultData where
  "null_data =
     \<lparr>credentials = [],
      settings = Some \<lparr>autoLockTimeout = Some Null, categories = None, defaultCategory = None\<rparr>\<rparr>"
section \<open>What JSON carries\<close>

lemma json_number_idem [simp]: "json_number (json_number n) = json_number n"
  by (cases n) (simp_all add: json_number_def)

lemma json_number_Num [simp]: "json_number (Num i) = Num i"
  by (simp add: json_number_def)

lemma json_credential_idem [simp]: "json_credential (json_credential c) = json_credential c"
  by (simp add: json_credential_def)

lemma json_settings_idem [simp]: "json_settings (json_settings s) = json_settings s"
  by (simp add: json_settings_def option.map_comp comp_def)

lemma json_image_idem [simp]: "json_image (json_image v) = json_image v"
  by (simp add: json_image_def option.map_comp comp_def)

lemma json_image_default [simp]: "json_image defaultVaultData = defaultVaultData"
  by (simp add: json_image_def defaultVaultData_def json_settings_def)

lemma json_credential_new [simp]:
  "json_credential (new_credential c newId t) = new_credential c newId t"
  by (simp add: json_credential_def new_credential_def)


lemma parsed_json:
  assumes "platform_ok P" "JSON_parse P b = Some v"
  shows "json_image v = v"
proof -
  from assms(1) have "map_option json_image (JSON_parse P b) = JSON_parse P b"
    by (simp add: platform_ok_def)
  with assms(2) show ?thesis by simp
qed

lemma unlock_json:
  assumes "platform_ok P" "unlock P pw ev = Inr d"
  shows "json_image d = d"
proof -
  from assms(2) obtain b where "JSON_parse P b = Some d"
    by (auto simp: unlock_def decrypt_def split: option.splits)
  with assms(1) show ?thesis by (rule parsed_json)
qed

section \<open>The steps of the service in closed form\<close>

lemma tick_simps [simp]:
  "vaults (tick w) = vaults w" "io (tick w) = io w" "io_n (tick w) = Suc (io_n w)"
  "entropy (tick w) = entropy w" "drawn (tick w) = drawn w" "uuids (tick w) = uuids w"
  "uuid_n (tick w) = uuid_n w" "clock (tick w) = clock w" "clock_n (tick w) = clock_n w"
  "now (tick w) = now w" "fresh_iv (tick w) = fresh_iv w"
  by (simp_all add: tick_def now_def fresh_iv_def)

lemma now_update [simp]:
  "now (w\<lparr>io_n := k\<rparr>) = now w" "now (w\<lparr>drawn := k\<rparr>) = now w"
  "now (w\<lparr>uuid_n := k\<rparr>) = now w" "now (w\<lparr>vaults := m\<rparr>) = now w"
  by (simp_all add: now_def)

lemma fresh_iv_update [simp]:
  "fresh_iv (w\<lparr>io_n := k\<rparr>) = fresh_iv w" "fresh_iv (w\<lparr>clock_n := k\<rparr>) = fresh_iv w"
  "fresh_iv (w\<lparr>uuid_n := k\<rparr>) = fresh_iv w" "fresh_iv (w\<lparr>vaults := m\<rparr>) = fresh_iv w"
  by (simp_all add: fresh_iv_def)

lemma getVault_eq:
  "getVault i w =
     (case io w (io_n w) of
        IoOk \<Rightarrow> (Inr (vaults w i), tick w)
      | OpenFails \<Rightarrow> (Inl (Error ''Failed to open database''), tick w)
      | RequestFails \<Rightarrow> (Inl (Error ''Failed to retrieve vault''), tick w))"
  by (simp add: getVault_def idb_call_def split: io_outcome.splits)


lemma saveVault_eq:
  "saveVault v w =
     (case io w (io_n w) of
        IoOk \<Rightarrow> (Inr (), (tick w)\<lparr>vaults := (vaults w)(vid v \<mapsto> v)\<rparr>)
      | OpenFails \<Rightarrow> (Inl (Error ''Failed to open database''), tick w)
      | RequestFails \<Rightarrow> (Inl (Error ''Failed to save vault''), tick w))"
  by (simp add: saveVault_def idb_call_def tick_def split: io_outcome.splits)

lemma openVault_try_eq:
  "openVault_try P ev pw w =
     (case unlock P pw ev of
        Inl e \<Rightarrow> (Inl e, w)
      | Inr d \<Rightarrow>
          (let w1 = w\<lparr>clock_n := Suc (clock_n w)\<rparr>;
               ev' = accessed ev (now w) in
           case io w (io_n w) of
             IoOk \<Rightarrow> (Inr (meta ev', d), (tick w1)\<lparr>vaults := (vaults w)(vid ev \<mapsto> ev')\<rparr>)
           | OpenFails \<Rightarrow> (Inl (Error ''Failed to open database''), tick w1)
           | RequestFails \<Rightarrow> (Inl (Error ''Failed to save vault''), tick w1)))"
  by (simp add: openVault_try_def unlock_def andThen_def orThrow_def throw_def ret_def liftE_def
      liftS_def Date_now_def generateKeyFromPassword_def saveVault_eq meta_def Let_def tick_def
      accessed_def now_def
      split: option.splits sum.splits io_outcome.splits)


lemma openVault_eq:
  "openVault P i pw w =
     (case io w (io_n w) of
        OpenFails \<Rightarrow> (Inl (Error ''Failed to open database''), tick w)
      | RequestFails \<Rightarrow> (Inl (Error ''Failed to retrieve vault''), tick w)
      | IoOk \<Rightarrow>
          (case vaults w i of
             None \<Rightarrow> (Inl (Error ''Vault not found''), tick w)
           | Some ev \<Rightarrow>
               (case openVault_try P ev pw (tick w) of
                  (Inl _, w') \<Rightarrow> (Inl (Error ''Incorrect master password or corrupted data''), w')
                | (Inr a, w') \<Rightarrow> (Inr a, w'))))"
  by (simp add: openVault_def andThen_def getVault_eq catchAll_def throw_def
      split: io_outcome.splits option.splits)

lemma openVault_Inl_store:
  assumes "openVault P i pw w = (Inl e, w')"
  shows "vaults w' = vaults w"
  using assms
  by (auto simp: openVault_eq openVault_try_eq Let_def
      split: io_outcome.splits option.splits sum.splits prod.splits)

lemma openVault_InrD:
  assumes "openVault P i pw w = (Inr (v, d), w')"
  shows "\<exists>ev. vaults w i = Some ev \<and> unlock P pw ev = Inr d \<and>
              io w (io_n w) = IoOk \<and> io w (Suc (io_n w)) = IoOk \<and>
              v = meta (accessed ev (now w)) \<and> w' = after_open ev w"
  using assms
  by (auto simp: openVault_eq openVault_try_eq Let_def after_open_def tick_def
      split: io_outcome.splits option.splits sum.splits prod.splits)

lemma openVault_InrI:
  assumes "vaults w i = Some ev" "unlock P pw ev = Inr d"
    "io w (io_n w) = IoOk" "io w (Suc (io_n w)) = IoOk"
  shows "openVault P i pw w = (Inr (meta (accessed ev (now w)), d), after_open ev w)"
  using assms
  by (simp add: openVault_eq openVault_try_eq Let_def after_open_def tick_def)


lemma getRandomValues_12 [simp]:
  "getRandomValues 12 w = (Inr (fresh_iv w), w\<lparr>drawn := drawn w + 12\<rparr>)"
  by (simp add: getRandomValues_def fresh_iv_def)

lemma encrypt_text_eq:
  "encrypt_text P key text w =
     (Inr (AES_GCM_encrypt P key (fresh_iv w) text, fresh_iv w), w\<lparr>drawn := drawn w + 12\<rparr>)"
  by (simp add: encrypt_text_def andThen_def ret_def)

lemma updateVault_try_eq:
  "updateVault_try P ev pw text newName w =
     (case decodeBase64 P (salt ev) of
        None \<Rightarrow> (Inl TypeError, w)
      | Some salt' \<Rightarrow>
          (let ev' = rewritten P ev (PBKDF2 P pw salt') text newName (fresh_iv w) (now w);
               w1 = w\<lparr>drawn := drawn w + 12, clock_n := Suc (clock_n w)\<rparr> in
           case io w (io_n w) of
             IoOk \<Rightarrow> (Inr (meta ev'), (tick w1)\<lparr>vaults := (vaults w)(vid ev \<mapsto> ev')\<rparr>)
           | OpenFails \<Rightarrow> (Inl (Error ''Failed to open database''), tick w1)
           | RequestFails \<Rightarrow> (Inl (Error ''Failed to save vault''), tick w1)))"
  by (simp add: updateVault_try_def andThen_def orThrow_def throw_def ret_def
      liftS_def Date_now_def generateKeyFromPassword_def encrypt_text_eq saveVault_eq meta_def
      rewritten_def Let_def tick_def now_def fresh_iv_def
      split: option.splits io_outcome.splits)

lemma updateVault_text_eq:
  "updateVault_text P i pw text newName w =
     (case io w (io_n w) of
        OpenFails \<Rightarrow> (Inl (Error ''Failed to open database''), tick w)
      | RequestFails \<Rightarrow> (Inl (Error ''Failed to retrieve vault''), tick w)
      | IoOk \<Rightarrow>
          (case vaults w i of
             None \<Rightarrow> (Inl (Error ''Vault not found''), tick w)
           | Some ev \<Rightarrow>
               (case updateVault_try P ev pw text newName (tick w) of
                  (Inl _, w') \<Rightarrow> (Inl (Error ''Failed to update vault''), w')
                | (Inr a, w') \<Rightarrow> (Inr a, w'))))"
  by (simp add: updateVault_text_def andThen_def getVault_eq catchAll_def throw_def
      split: io_outcome.splits option.splits)

lemma vid_rewritten [simp]: "vid (rewritten P ev key text newName iv' t) = vid ev"
  by (simp add: rewritten_def)

lemma vid_accessed [simp]: "vid (accessed ev t) = vid ev"
  by (simp add: accessed_def)

lemma updateVault_text_Inl_store:
  assumes "updateVault_text P i pw text newName w = (Inl e, w')"
  shows "vaults w' = vaults w"
  using assms
  by (auto simp: updateVault_text_eq updateVault_try_eq Let_def
      split: io_outcome.splits option.splits sum.splits prod.splits)

lemma updateVault_text_InrD:
  assumes "updateVault_text P i pw text newName w = (Inr v, w')"
  shows "\<exists>ev salt'. vaults w i = Some ev \<and> decodeBase64 P (salt ev) = Some salt' \<and>
              io w (io_n w) = IoOk \<and> io w (Suc (io_n w)) = IoOk \<and>
              v = meta (rewritten P ev (PBKDF2 P pw salt') text newName (fresh_iv w) (now w)) \<and>
              w' = after_update (rewritten P ev (PBKDF2 P pw salt') text newName (fresh_iv w) (now w)) w"
  using assms
  by (auto simp: updateVault_text_eq updateVault_try_eq Let_def after_update_def tick_def
      split: io_outcome.splits option.splits sum.splits prod.splits)

lemma updateVault_text_InrI:
  assumes "vaults w i = Some ev" "decodeBase64 P (salt ev) = Some salt'"
    "io w (io_n w) = IoOk" "io w (Suc (io_n w)) = IoOk"
  shows "updateVault_text P i pw text newName w =
           (Inr (meta (rewritten P ev (PBKDF2 P pw salt') text newName (fresh_iv w) (now w))),
            after_update (rewritten P ev (PBKDF2 P pw salt') text newName (fresh_iv w) (now w)) w)"
  using assms
  by (simp add: updateVault_text_eq updateVault_try_eq Let_def after_update_def tick_def)

lemma getRandomValues_16 [simp]:
  "getRandomValues 16 w = (Inr (fresh_salt w), w\<lparr>drawn := drawn w + 16\<rparr>)"
  by (simp add: getRandomValues_def fresh_salt_def)

lemma createVault_eq:
  "createVault P name' pw w =
     (case io w (io_n w) of
        IoOk \<Rightarrow> (Inr (uuids w (uuid_n w)), after_create (created P name' pw w) w)
      | OpenFails \<Rightarrow>
          (Inl (Error ''Failed to open database''),
           w\<lparr>drawn := drawn w + 28, uuid_n := Suc (uuid_n w), clock_n := Suc (clock_n w),
             io_n := Suc (io_n w)\<rparr>)
      | RequestFails \<Rightarrow>
          (Inl (Error ''Failed to save vault''),
           w\<lparr>drawn := drawn w + 28, uuid_n := Suc (uuid_n w), clock_n := Suc (clock_n w),
             io_n := Suc (io_n w)\<rparr>))"
  by (simp add: createVault_def andThen_def liftS_def randomUUID_def generateKeyFromPassword_def
      ret_def encrypt_def encrypt_text_eq Date_now_def saveVault_eq created_def after_create_def
      Let_def tick_def now_def fresh_iv_def fresh_salt_def
      split: io_outcome.splits)

lemma unlock_created:
  assumes "platform_ok P"
  shows "unlock P pw (created P name' pw w) = Inr defaultVaultData"
  using assms by (simp add: unlock_def created_def platform_ok_def decrypt_def Let_def)

lemma unlock_Inl_cases:
  "unlock P pw ev = Inl cause \<longleftrightarrow>
     (decodeBase64 P (encryptedData ev) = None \<and> cause = TypeError) \<or>
     (decodeBase64 P (encryptedData ev) \<noteq> None \<and> decodeBase64 P (iv ev) = None \<and> cause = TypeError) \<or>
     (decodeBase64 P (encryptedData ev) \<noteq> None \<and> decodeBase64 P (iv ev) \<noteq> None \<and>
      decodeBase64 P (salt ev) = None \<and> cause = TypeError) \<or>
     (\<exists>ct iv' salt'. decodeBase64 P (encryptedData ev) = Some ct \<and> decodeBase64 P (iv ev) = Some iv' \<and>
        decodeBase64 P (salt ev) = Some salt' \<and>
        ((AES_GCM_decrypt P (PBKDF2 P pw salt') iv' ct = None \<and> cause = OperationError) \<or>
         (\<exists>text. AES_GCM_decrypt P (PBKDF2 P pw salt') iv' ct = Some text \<and>
                 JSON_parse P text = None \<and> cause = SyntaxError)))"
  by (auto simp: unlock_def decrypt_def split: option.splits)

lemma after_create_simps [simp]:
  "vaults (after_create ev w) = (vaults w)(vid ev \<mapsto> ev)"
  "io (after_create ev w) = io w" "io_n (after_create ev w) = Suc (io_n w)"
  "entropy (after_create ev w) = entropy w" "drawn (after_create ev w) = drawn w + 28"
  "uuids (after_create ev w) = uuids w" "uuid_n (after_create ev w) = Suc (uuid_n w)"
  "clock (after_create ev w) = clock w" "clock_n (after_create ev w) = Suc (clock_n w)"
  by (simp_all add: after_create_def)

lemma created_simps [simp]:
  "vid (created P name' pw w) = uuids w (uuid_n w)"
  "name (created P name' pw w) = name'"
  "salt (created P name' pw w) = encodeBase64 P (fresh_salt w)"
  "createdAt (created P name' pw w) = now w"
  "lastAccessed (created P name' pw w) = now w"
  "lastModified (created P name' pw w) = now w"
  by (simp_all add: created_def Let_def)

section \<open>What each operation does to the store\<close>

lemma after_open_simps [simp]:
  "vaults (after_open ev w) = (vaults w)(vid ev \<mapsto> accessed ev (now w))"
  "io (after_open ev w) = io w" "io_n (after_open ev w) = Suc (Suc (io_n w))"
  "entropy (after_open ev w) = entropy w" "drawn (after_open ev w) = drawn w"
  "uuids (after_open ev w) = uuids w" "uuid_n (after_open ev w) = uuid_n w"
  "clock (after_open ev w) = clock w" "clock_n (after_open ev w) = Suc (clock_n w)"
  by (simp_all add: after_open_def)

lemma after_update_simps [simp]:
  "vaults (after_update ev w) = (vaults w)(vid ev \<mapsto> ev)"
  "io (after_update ev w) = io w" "io_n (after_update ev w) = Suc (Suc (io_n w))"
  "entropy (after_update ev w) = entropy w" "drawn (after_update ev w) = drawn w + 12"
  "uuids (after_update ev w) = uuids w" "uuid_n (after_update ev w) = uuid_n w"
  "clock (after_update ev w) = clock w" "clock_n (after_update ev w) = Suc (clock_n w)"
  by (simp_all add: after_update_def)

lemma andThen_InlD:
  assumes "andThen m f w = (Inl e, w')"
  shows "m w = (Inl e, w') \<or> (\<exists>a w1. m w = (Inr a, w1) \<and> f a w1 = (Inl e, w'))"
  using assms by (auto simp: andThen_def split: prod.splits sum.splits)

lemma andThen_InrD:
  assumes "andThen m f w = (Inr b, w')"
  shows "\<exists>a w1. m w = (Inr a, w1) \<and> f a w1 = (Inr b, w')"
  using assms by (auto simp: andThen_def split: prod.splits sum.splits)

lemma open_then_Inl:
  assumes wf: "store_wf w"
    and run: "andThen (openVault P i pw) f w = (Inl e, w')"
    and f: "\<And>v d w1 w2. f (v, d) w1 = (Inl e, w2) \<Longrightarrow> vaults w2 = vaults w1"
  shows "untouched_or_accessed i w w'"
proof -
  from andThen_InlD [OF run] show ?thesis
  proof
    assume "openVault P i pw w = (Inl e, w')"
    then have "vaults w' = vaults w" by (rule openVault_Inl_store)
    then show ?thesis by (simp add: untouched_or_accessed_def)
  next
    assume "\<exists>a w1. openVault P i pw w = (Inr a, w1) \<and> f a w1 = (Inl e, w')"
    then obtain v d w1 where o: "openVault P i pw w = (Inr (v, d), w1)"
      and r: "f (v, d) w1 = (Inl e, w')" by (metis surj_pair)
    from openVault_InrD [OF o] obtain ev where
      ev: "vaults w i = Some ev" and w1: "w1 = after_open ev w" by blast
    from wf ev have k: "vid ev = i" by (simp add: store_wf_def)
    from f [OF r] w1 k have "vaults w' = (vaults w)(i \<mapsto> accessed ev (now w))" by simp
    with ev show ?thesis unfolding untouched_or_accessed_def by blast
  qed
qed

lemma store_wf_put: "store_wf w \<Longrightarrow> vid ev = k \<Longrightarrow> vaults w' = (vaults w)(k \<mapsto> ev) \<Longrightarrow> store_wf w'"
  by (simp add: store_wf_def)

lemma store_wf_same: "store_wf w \<Longrightarrow> vaults w' = vaults w \<Longrightarrow> store_wf w'"
  by (simp add: store_wf_def)

lemma store_wf_after_open: "store_wf w \<Longrightarrow> store_wf (after_open ev w)"
  by (rule store_wf_put [of w "accessed ev (now w)" "vid ev"]) simp_all

lemma open_then_Inr:
  assumes wf: "store_wf w"
    and run: "andThen (openVault P i pw) f w = (Inr a, w')"
    and f: "\<And>v d w1 w2. store_wf w1 \<Longrightarrow> f (v, d) w1 = (Inr a, w2) \<Longrightarrow> rewrote i w1 w2"
  shows "rewrote i w w'"
proof -
  from andThen_InrD [OF run]
  obtain v d w1 where o: "openVault P i pw w = (Inr (v, d), w1)"
      and r: "f (v, d) w1 = (Inr a, w')" by (metis surj_pair)
  from openVault_InrD [OF o] obtain ev where
      ev: "vaults w i = Some ev" and w1: "w1 = after_open ev w" by blast
  from wf ev have k: "vid ev = i" by (simp add: store_wf_def)
  from wf w1 have "store_wf w1" by (simp add: store_wf_after_open)
  from f [OF this r] obtain ev' where "vid ev' = i" "vaults w' = (vaults w1)(i \<mapsto> ev')"
    unfolding rewrote_def by blast
  with w1 k show ?thesis unfolding rewrote_def by auto
qed

lemma updateVault_Inl_store:
  "updateVault P i pw data newName w = (Inl e, w') \<Longrightarrow> vaults w' = vaults w"
  unfolding updateVault_def by (rule updateVault_text_Inl_store)

lemma updateVault_Inr_rewrote:
  assumes "store_wf w" "updateVault P i pw data newName w = (Inr v, w')"
  shows "rewrote i w w'"
proof -
  from assms(2) have "updateVault_text P i pw (JSON_stringify P data) newName w = (Inr v, w')"
    by (simp add: updateVault_def)
  from updateVault_text_InrD [OF this] obtain ev salt' where
    ev: "vaults w i = Some ev" and
    w': "w' = after_update (rewritten P ev (PBKDF2 P pw salt') (JSON_stringify P data) newName
                (fresh_iv w) (now w)) w" by blast
  from assms(1) ev have "vid ev = i" by (simp add: store_wf_def)
  with w' show ?thesis unfolding rewrote_def
    by (intro exI [of _ "rewritten P ev (PBKDF2 P pw salt') (JSON_stringify P data) newName
                (fresh_iv w) (now w)"]) simp
qed


lemma rewrote_cong: "vaults w1 = vaults w0 \<Longrightarrow> rewrote i w1 w2 \<Longrightarrow> rewrote i w0 w2"
  by (simp add: rewrote_def)

lemma addCredential_Inl:
  assumes "store_wf w" "addCredential P i pw c w = (Inl e, w')"
  shows "untouched_or_accessed i w w'"
  by (rule open_then_Inl [OF assms(1) assms(2) [unfolded addCredential_def]])
     (auto simp: andThen_def liftS_def Date_now_def randomUUID_def ret_def Let_def
        split: prod.splits sum.splits dest!: updateVault_Inl_store)

lemma addCredential_Inr:
  assumes "store_wf w" "addCredential P i pw c w = (Inr a, w')"
  shows "rewrote i w w'"
  by (rule open_then_Inr [OF assms(1) assms(2) [unfolded addCredential_def]])
     (auto simp: andThen_def liftS_def Date_now_def randomUUID_def ret_def Let_def
        split: prod.splits sum.splits
        dest!: updateVault_Inr_rewrote [rotated] intro: store_wf_same elim: rewrote_cong [rotated])

lemma updateCredential_Inl:
  assumes "store_wf w" "updateCredential P i pw c u w = (Inl e, w')"
  shows "untouched_or_accessed i w w'"
  by (rule open_then_Inl [OF assms(1) assms(2) [unfolded updateCredential_def]])
     (auto simp: andThen_def liftS_def Date_now_def throw_def ret_def Let_def
        split: prod.splits sum.splits option.splits dest!: updateVault_Inl_store)

lemma updateCredential_Inr:
  assumes "store_wf w" "updateCredential P i pw c u w = (Inr a, w')"
  shows "rewrote i w w'"
  by (rule open_then_Inr [OF assms(1) assms(2) [unfolded updateCredential_def]])
     (auto simp: andThen_def liftS_def Date_now_def throw_def ret_def Let_def
        split: prod.splits sum.splits option.splits
        dest!: updateVault_Inr_rewrote [rotated] intro: store_wf_same elim: rewrote_cong [rotated])

lemma deleteCredential_Inl:
  assumes "store_wf w" "deleteCredential P i pw c w = (Inl e, w')"
  shows "untouched_or_accessed i w w'"
  by (rule open_then_Inl [OF assms(1) assms(2) [unfolded deleteCredential_def]])
     (auto simp: andThen_def ret_def Let_def
        split: prod.splits sum.splits dest!: updateVault_Inl_store)

lemma deleteCredential_Inr:
  assumes "store_wf w" "deleteCredential P i pw c w = (Inr a, w')"
  shows "rewrote i w w'"
  by (rule open_then_Inr [OF assms(1) assms(2) [unfolded deleteCredential_def]])
     (auto simp: andThen_def ret_def Let_def
        split: prod.splits sum.splits dest!: updateVault_Inr_rewrote [rotated])

lemma updateVaultSettings_Inl:
  assumes "store_wf w" "updateVaultSettings P i pw st w = (Inl e, w')"
  shows "untouched_or_accessed i w w'"
  by (rule open_then_Inl [OF assms(1) assms(2) [unfolded updateVaultSettings_def]])
     (auto simp: andThen_def ret_def Let_def
        split: prod.splits sum.splits dest!: updateVault_Inl_store)

lemma updateVaultSettings_Inr:
  assumes "store_wf w" "updateVaultSettings P i pw st w = (Inr a, w')"
  shows "rewrote i w w'"
  by (rule open_then_Inr [OF assms(1) assms(2) [unfolded updateVaultSettings_def]])
     (auto simp: andThen_def ret_def Let_def
        split: prod.splits sum.splits dest!: updateVault_Inr_rewrote [rotated])

lemma changeMasterPassword_Inl:
  assumes "store_wf w" "changeMasterPassword P i cur new w = (Inl e, w')"
  shows "untouched_or_accessed i w w'"
  by (rule open_then_Inl [OF assms(1) assms(2) [unfolded changeMasterPassword_def]])
     (auto simp: andThen_def ret_def throw_def Let_def liftS_def Date_now_def
        generateKeyFromPassword_def encrypt_def encrypt_text_eq getVault_eq saveVault_eq
        split: prod.splits sum.splits option.splits io_outcome.splits)

lemma rewroteI: "vaults w' = (vaults w)(i \<mapsto> ev') \<Longrightarrow> vid ev' = i \<Longrightarrow> rewrote i w w'"
  unfolding rewrote_def by blast

lemma changeMasterPassword_Inr:
  assumes "store_wf w" "changeMasterPassword P i cur new w = (Inr a, w')"
  shows "rewrote i w w'"
  by (rule open_then_Inr [OF assms(1) assms(2) [unfolded changeMasterPassword_def]])
     (auto simp: andThen_def ret_def throw_def Let_def liftS_def Date_now_def
        generateKeyFromPassword_def encrypt_def encrypt_text_eq getVault_eq saveVault_eq
        store_wf_def
        split: prod.splits sum.splits option.splits io_outcome.splits
        intro!: rewroteI)

lemma discard_Inl: "discard m w = (Inl e, w') \<longleftrightarrow> m w = (Inl e, w')"
  by (auto simp: discard_def split: prod.splits sum.splits)

lemma discard_Inr: "discard m w = (Inr u, w') \<longleftrightarrow> (\<exists>a. m w = (Inr a, w'))"
  by (auto simp: discard_def split: prod.splits sum.splits)

lemma createVault_Inl_store: "createVault P n pw w = (Inl e, w') \<Longrightarrow> vaults w' = vaults w"
  by (auto simp: createVault_eq split: io_outcome.splits)

lemma createVault_Inr_rewrote: "createVault P n pw w = (Inr i, w') \<Longrightarrow> rewrote (uuids w (uuid_n w)) w w'"
  by (auto simp: createVault_eq split: io_outcome.splits intro!: rewroteI)

lemma openVault_Inr_rewrote:
  assumes "store_wf w" "openVault P i pw w = (Inr a, w')"
  shows "rewrote i w w'"
proof -
  obtain v d where "a = (v, d)" by (cases a)
  with assms(2) openVault_InrD [of P i pw w v d w'] obtain ev where
    "vaults w i = Some ev" "w' = after_open ev w" by auto
  moreover from this assms(1) have "vid ev = i" by (simp add: store_wf_def)
  ultimately show ?thesis by (auto intro!: rewroteI)
qed

text \<open>
  The store invariant holds of the empty store and survives every operation, whether the
  operation succeeds or fails.
\<close>

lemma store_wf_rewrote: "store_wf w \<Longrightarrow> rewrote i w w' \<Longrightarrow> store_wf w'"
  unfolding rewrote_def by (auto intro: store_wf_put)

lemma store_wf_untouched_or_accessed:
  assumes "store_wf w" "untouched_or_accessed i w w'"
  shows "store_wf w'"
proof -
  from assms(2) consider "vaults w' = vaults w"
    | ev t where "vaults w i = Some ev" "vaults w' = (vaults w)(i \<mapsto> accessed ev t)"
    unfolding untouched_or_accessed_def by blast
  then show ?thesis
  proof cases
    case 1
    with assms(1) show ?thesis by (rule store_wf_same)
  next
    case 2
    from assms(1) 2(1) have "vid (accessed ev t) = i" by (simp add: store_wf_def)
    from store_wf_put [OF assms(1) this 2(2)] show ?thesis .
  qed
qed

lemma untouchedI: "vaults w' = vaults w \<Longrightarrow> untouched_or_accessed i w w'"
  by (simp add: untouched_or_accessed_def)

lemma store_wf_run:
  assumes "store_wf w" and "run P op w = (r, w')"
  shows "store_wf w'"
proof (cases r)
  case (Inl e)
  with assms have "untouched_or_accessed (target op w) w w'"
    by (cases op)
       (auto simp: discard_Inl
          intro: untouchedI
          dest: createVault_Inl_store openVault_Inl_store updateVault_Inl_store
                changeMasterPassword_Inl addCredential_Inl updateCredential_Inl
                deleteCredential_Inl updateVaultSettings_Inl)
  with assms(1) show ?thesis by (rule store_wf_untouched_or_accessed)
next
  case (Inr u)
  with assms have "rewrote (target op w) w w'"
    by (cases op)
       (auto simp: discard_Inr
          dest: createVault_Inr_rewrote openVault_Inr_rewrote updateVault_Inr_rewrote
                changeMasterPassword_Inr addCredential_Inr updateCredential_Inr
                deleteCredential_Inr updateVaultSettings_Inr)
  with assms(1) show ?thesis by (rule store_wf_rewrote)
qed

section \<open>Adding credentials\<close>


lemma unlock_accessed [simp]: "unlock P pw (accessed ev t) = unlock P pw ev"
  by (simp add: unlock_def accessed_def split: option.splits)

lemma now_clock_n [simp]: "now (w\<lparr>clock_n := k\<rparr>) = clock w k"
  by (simp add: now_def)

lemma unlock_rewritten:
  assumes "platform_ok P" "decodeBase64 P (salt ev) = Some salt'"
  shows "unlock P pw (rewritten P ev (PBKDF2 P pw salt') (JSON_stringify P d) newName iv' t) =
           Inr (json_image d)"
  using assms by (simp add: unlock_def rewritten_def platform_ok_def decrypt_def)


lemma salt_accessed [simp]: "salt (accessed ev t) = salt ev"
  by (simp add: accessed_def)



lemma after_add_simps [simp]:
  "vaults (after_add ev w) = (vaults w)(vid ev \<mapsto> ev)"
  "io (after_add ev w) = io w" "io_n (after_add ev w) = io_n w + 4"
  "entropy (after_add ev w) = entropy w" "drawn (after_add ev w) = drawn w + 12"
  "uuids (after_add ev w) = uuids w" "uuid_n (after_add ev w) = Suc (uuid_n w)"
  "clock (after_add ev w) = clock w" "clock_n (after_add ev w) = clock_n w + 3"
  by (simp_all add: after_add_def)





section \<open>Rotating the master password in the service\<close>

text \<open>
  The \<open>changeMasterPassword\<close> of the service re-encrypts under a key derived from the
  new password and a fresh salt: afterwards the record opens with the new password.
\<close>

lemma changeMasterPassword_InrD:
  assumes wf: "store_wf w" and run: "changeMasterPassword P i cur new w = (Inr u, w')"
  shows "\<exists>ev d. vaults w i = Some ev \<and> unlock P cur ev = Inr d \<and>
           vaults w' = (vaults w)(i \<mapsto> rotated P ev new d w)"
proof -
  from andThen_InrD [OF run [unfolded changeMasterPassword_def]]
  obtain v d w1 where o: "openVault P i cur w = (Inr (v, d), w1)"
    and r: "andThen (generateKeyFromPassword P new None) (\<lambda>(key, salt').
     andThen (encrypt P key d) (\<lambda>(encryptedData', iv').
     andThen (getVault i) (\<lambda>found.
     case found of
       None \<Rightarrow> throw (Error ''Vault not found'')
     | Some existingVault \<Rightarrow>
         andThen (liftS Date_now) (\<lambda>now.
         let updatedVault = existingVault
               \<lparr>encryptedData := encodeBase64 P encryptedData',
                iv := encodeBase64 P iv',
                salt := encodeBase64 P salt',
                lastModified := now,
                lastAccessed := now\<rparr> in
         saveVault updatedVault)))) w1 = (Inr u, w')"
    by (auto simp: split_def)
  from openVault_InrD [OF o] obtain ev where
    ev: "vaults w i = Some ev" and d: "unlock P cur ev = Inr d"
    and w1: "w1 = after_open ev w" by blast
  from wf ev have k: "vid ev = i" by (simp add: store_wf_def)
  have "vaults w' = (vaults w)(i \<mapsto> rotated P ev new d w)"
    using r unfolding w1
    by (auto simp: andThen_def ret_def throw_def Let_def liftS_def Date_now_def
        generateKeyFromPassword_def encrypt_def encrypt_text_eq getVault_eq saveVault_eq
        rotated_def k accessed_def fresh_iv_def fresh_salt_def
        split: prod.splits sum.splits option.splits io_outcome.splits)
  with ev d show ?thesis by blast
qed

lemma unlock_rotated:
  assumes "platform_ok P"
  shows "unlock P new (rotated P ev new d w) = Inr (json_image d)"
  using assms by (simp add: unlock_def rotated_def platform_ok_def decrypt_def Let_def)

lemma changeMasterPassword_rotates:
  assumes "platform_ok P" "store_wf w" "changeMasterPassword P i cur new w = (Inr u, w')"
  shows "\<exists>ev d ev'. vaults w i = Some ev \<and> unlock P cur ev = Inr d \<and>
           vaults w' i = Some ev' \<and> unlock P new ev' = Inr d \<and>
           salt ev' = encodeBase64 P (fresh_salt w)"
proof -
  from changeMasterPassword_InrD [OF assms(2,3)] obtain ev d where
    ev: "vaults w i = Some ev" "unlock P cur ev = Inr d"
    "vaults w' = (vaults w)(i \<mapsto> rotated P ev new d w)" by blast
  have "salt (rotated P ev new d w) = encodeBase64 P (fresh_salt w)"
    by (simp add: rotated_def Let_def)
  moreover have "unlock P new (rotated P ev new d w) = Inr d"
    using unlock_rotated [OF assms(1), of new ev d w] unlock_json [OF assms(1) ev(2)] by simp
  ultimately show ?thesis using ev by auto
qed

section \<open>Importing a backup\<close>

lemma raw_put_ok:
  assumes "raw_io w (raw_io_n w) = IoOk" "key_of v = Some k"
  shows "raw_put msg store v w = (Inr (), store (w\<lparr>raw_io_n := Suc (raw_io_n w)\<rparr>) k v)"
  using assms by (simp add: raw_put_def Let_def)

lemma raw_put_Inl:
  assumes "raw_put msg store v w = (Inl e, w')"
  shows "w' = w\<lparr>raw_io_n := Suc (raw_io_n w)\<rparr> \<and>
         e \<in> {Error ''Failed to open database'', DataError, Error msg}"
  using assms
  by (auto simp: raw_put_def Let_def split: io_outcome.splits option.splits if_splits)

lemma saveVault_raw_no_key:
  assumes "raw_io w (raw_io_n w) = IoOk" "key_of v = None"
  shows "saveVault_raw v w = (Inl DataError, w\<lparr>raw_io_n := Suc (raw_io_n w)\<rparr>)"
  using assms by (simp add: saveVault_raw_def raw_put_def Let_def)

lemma saveAll_ok:
  assumes "\<forall>k < length xs. raw_io w (raw_io_n w + k) = IoOk" "\<forall>v \<in> set xs. key_of v \<noteq> None"
  shows "saveAll xs w =
           (Inr (), w\<lparr>raw_io_n := raw_io_n w + length xs,
                       vault_objs := fold upsert xs (vault_objs w)\<rparr>)"
  using assms
proof (induction xs arbitrary: w)
  case Nil
  then show ?case by simp
next
  case (Cons v xs)
  from Cons.prems(2) obtain k where k: "key_of v = Some k" by auto
  from Cons.prems(1) have io0: "raw_io w (raw_io_n w) = IoOk" by fastforce
  let ?w1 = "w\<lparr>raw_io_n := Suc (raw_io_n w), vault_objs := (vault_objs w)(k \<mapsto> v)\<rparr>"
  have s: "saveVault_raw v w = (Inr (), ?w1)"
    by (simp add: saveVault_raw_def raw_put_ok [OF io0 k])
  have io1: "\<forall>j < length xs. raw_io ?w1 (raw_io_n ?w1 + j) = IoOk"
  proof (intro allI impI)
    fix j assume "j < length xs"
    then have "Suc j < length (v # xs)" by simp
    with Cons.prems(1) have "raw_io w (raw_io_n w + Suc j) = IoOk" by blast
    then show "raw_io ?w1 (raw_io_n ?w1 + j) = IoOk" by simp
  qed
  from Cons.prems(2) have keys: "\<forall>v \<in> set xs. key_of v \<noteq> None" by simp
  have up: "upsert v (vault_objs w) = (vault_objs w)(k \<mapsto> v)"
    by (simp add: upsert_def k)
  have v1: "vault_objs ?w1 = (vault_objs w)(k \<mapsto> v)" by simp
  have n1: "raw_io_n ?w1 = Suc (raw_io_n w)" by simp
  have "saveAll (v # xs) w = saveAll xs ?w1" by (simp add: s)
  also have "\<dots> = (Inr (), ?w1\<lparr>raw_io_n := raw_io_n ?w1 + length xs,
                       vault_objs := fold upsert xs (vault_objs ?w1)\<rparr>)"
    by (rule Cons.IH [OF io1 keys])
  also have "?w1\<lparr>raw_io_n := raw_io_n ?w1 + length xs,
                       vault_objs := fold upsert xs (vault_objs ?w1)\<rparr> =
             w\<lparr>raw_io_n := raw_io_n w + length (v # xs),
               vault_objs := fold upsert (v # xs) (vault_objs w)\<rparr>"
    unfolding v1 n1 by (simp add: up)
  finally show ?case .
qed

lemma saveAll_Inl:
  assumes "saveAll xs w = (Inl e, w')"
  shows "e \<in> {Error ''Failed to open database'', DataError, Error ''Failed to save vault''} \<and>
         setting_objs w' = setting_objs w"
  using assms
proof (induction xs arbitrary: w)
  case Nil
  then show ?case by simp
next
  case (Cons v xs)
  show ?case
  proof (cases "saveVault_raw v w")
    case (Pair r w1)
    show ?thesis
    proof (cases r)
      case (Inl e1)
      with Pair Cons.prems have "saveVault_raw v w = (Inl e, w')" by simp
      then have "raw_put ''Failed to save vault''
          (\<lambda>w k v. w\<lparr>vault_objs := (vault_objs w)(k \<mapsto> v)\<rparr>) v w = (Inl e, w')"
        by (simp add: saveVault_raw_def)
      from raw_put_Inl [OF this] show ?thesis by auto
    next
      case (Inr u)
      with Pair Cons.prems have rest: "saveAll xs w1 = (Inl e, w')" by simp
      from Pair Inr have "setting_objs w1 = setting_objs w"
        by (auto simp: saveVault_raw_def raw_put_def Let_def
            split: io_outcome.splits option.splits if_splits)
      with Cons.IH [OF rest] show ?thesis by simp
    qed
  qed
qed

lemma fold_upsert_last:
  "fold upsert xs m k =
     (case filter (\<lambda>v. key_of v = Some k) (rev xs) of [] \<Rightarrow> m k | v # _ \<Rightarrow> Some v)"
proof (induction xs rule: rev_induct)
  case Nil
  then show ?case by simp
next
  case (snoc x xs)
  have "fold upsert (xs @ [x]) m k = upsert x (fold upsert xs m) k" by simp
  also have "\<dots> = (if key_of x = Some k then Some x else fold upsert xs m k)"
    by (auto simp: upsert_def split: option.splits)
  finally show ?case by (simp add: snoc.IH)
qed

lemma get_prop_Inl_iff: "get_prop data k = Inl e \<longleftrightarrow> data = JNull \<and> e = TypeError"
  by (cases data) auto

lemma get_prop_cases:
  assumes "data \<noteq> JNull"
  obtains v where "get_prop data k = Inr v"
  using assms by (cases data) auto

lemma not_array_iff:
  "(\<not> truthy_opt v \<or> \<not> isArray_opt v) \<longleftrightarrow> \<not> (\<exists>xs. v = Some (JArr xs))"
proof (cases v)
  case None
  then show ?thesis by (simp add: truthy_opt_def isArray_opt_def)
next
  case (Some x)
  then show ?thesis by (cases x) (simp_all add: truthy_opt_def isArray_opt_def)
qed

lemma importData_not_array:
  assumes "JSON_parse_any jsonData = Some data" "get_prop data ''vaults'' = Inr v"
    "\<not> (\<exists>xs. v = Some (JArr xs))"
  shows "importData JSON_parse_any jsonData w = (Inl (Error ''Invalid backup format''), w)"
  using assms not_array_iff [of v] by (simp add: importData_def)

lemma importData_array:
  assumes "JSON_parse_any jsonData = Some data" "get_prop data ''vaults'' = Inr (Some (JArr xs))"
  shows "importData JSON_parse_any jsonData w =
     (case saveAll xs w of
        (Inl e, w') \<Rightarrow> (Inl e, w')
      | (Inr _, w') \<Rightarrow>
          (case included_settings data of
             None \<Rightarrow> (Inr (), w')
           | Some st \<Rightarrow> saveSettings_raw st w'))"
proof -
  from assms(2) have "data \<noteq> JNull" by auto
  then obtain st where st: "get_prop data ''settings'' = Inr st"
    by (rule get_prop_cases)
  show ?thesis
    using assms st
    by (auto simp: importData_def truthy_opt_def isArray_opt_def included_settings_def
        split: prod.splits sum.splits option.splits)
qed

lemma saveSettings_raw_ok:
  assumes "raw_io w (raw_io_n w) = IoOk" "key_of (with_app_settings_id st) = Some k"
  shows "saveSettings_raw st w =
           (Inr (), w\<lparr>raw_io_n := Suc (raw_io_n w),
                       setting_objs := (setting_objs w)(k \<mapsto> with_app_settings_id st)\<rparr>)"
  using assms by (simp add: saveSettings_raw_def raw_put_ok)

lemma singleton_slot:
  assumes "map_of ps ''id'' = None \<or> map_of ps ''id'' = Some (JStr ''app-settings'')"
  shows "key_of (with_app_settings_id (JObj ps)) = Some (JStr ''app-settings'')"
  using assms by (auto simp: with_app_settings_id_def orElse_def Let_def)

lemma raw0_simps [simp]:
  "vault_objs raw0 = Map.empty" "raw_io raw0 = (\<lambda>_. IoOk)" "raw_io_n raw0 = 0"
  "setting_objs raw0 = [JStr ''app-settings'' \<mapsto>
                        JObj [(''id'', JStr ''app-settings''), (''darkMode'', JBool False)]]"
  by (simp_all add: raw0_def)

section \<open>The reference platform meets the assumptions\<close>

lemma count_ones_replicate: "count_ones a (replicate n 1 @ 0 # r) = Some (a + n, r)"
  by (induction n arbitrary: a) auto

lemma codec_nat: "codec enc_nat dec_nat"
  by (simp add: codec_def enc_nat_def dec_nat_def count_ones_replicate)

lemma next_field_codec: "codec e d \<Longrightarrow> next_field d f (e x @ r) = f x r"
  by (simp add: codec_def next_field_def)

lemma byte_of_char_of_byte: "byte_of_char (char_of_byte b) = b"
proof -
  have "unat b < 256" using unsigned_less [of b] by simp
  then show ?thesis by (simp add: byte_of_char_def char_of_byte_def)
qed

lemma char_of_byte_of_char: "char_of_byte (byte_of_char c) = c"
  by (simp add: byte_of_char_def char_of_byte_def unat_of_nat)

lemma codec_str: "codec enc_str dec_str"
  by (simp add: codec_def [of enc_str] enc_str_def dec_str_def next_field_codec [OF codec_nat]
      comp_def char_of_byte_of_char)

lemma codec_int: "codec enc_int dec_int"
  by (simp add: codec_def [of enc_int] enc_int_def next_field_codec [OF codec_nat])

lemma codec_number: "codec enc_number dec_number"
  unfolding codec_def
proof (intro allI)
  fix x r
  show "dec_number (enc_number x @ r) = Some (x, r)"
    by (cases x) (simp_all add: next_field_codec [OF codec_int])
qed

lemma codec_opt:
  assumes "codec e d"
  shows "codec (enc_opt e) (dec_opt d)"
  unfolding codec_def
proof (intro allI)
  fix x r
  from assms have h: "\<And>y s. d (e y @ s) = Some (y, s)" by (simp add: codec_def)
  show "dec_opt d (enc_opt e x @ r) = Some (x, r)"
    by (cases x) (simp_all add: h)
qed

lemma dec_n_concat:
  "codec e d \<Longrightarrow> dec_n d (length xs) (concat (map e xs) @ r) = Some (xs, r)"
  by (induction xs) (simp_all add: codec_def)

lemma codec_list: "codec e d \<Longrightarrow> codec (enc_list e) (dec_list d)"
  by (simp add: codec_def [of "enc_list e"] enc_list_def dec_list_def
      next_field_codec [OF codec_nat] dec_n_concat)

lemmas codec_fields =
  next_field_codec [OF codec_str] next_field_codec [OF codec_number]
  next_field_codec [OF codec_opt [OF codec_str]]
  next_field_codec [OF codec_opt [OF codec_list [OF codec_str]]]
  next_field_codec [OF codec_opt [OF codec_number]]

lemma codec_cred: "codec enc_cred dec_cred"
  by (simp add: codec_def [of enc_cred] enc_cred_def dec_cred_def codec_fields)

lemma codec_settings: "codec enc_settings dec_settings"
  by (simp add: codec_def [of enc_settings] enc_settings_def dec_settings_def codec_fields)

lemma codec_data: "codec enc_data dec_data"
  by (simp add: codec_def [of enc_data] enc_data_def dec_data_def
      next_field_codec [OF codec_list [OF codec_cred]]
      next_field_codec [OF codec_opt [OF codec_settings]])

lemma ref_parse_stringify: "ref_parse (ref_stringify v) = Some (json_image v)"
  using codec_data [unfolded codec_def, rule_format, of "json_image v" "[]"]
  by (simp add: ref_parse_def ref_stringify_def)

lemma ref_parse_json: "map_option json_image (ref_parse b) = ref_parse b"
  by (simp add: ref_parse_def split: option.splits prod.splits list.splits)

lemma platform_ok_ref: "platform_ok ref_platform"
  by (simp add: platform_ok_def ref_platform_def ref_encrypt_def ref_decrypt_def
      ref_parse_stringify ref_parse_json comp_def byte_of_char_of_byte)

lemma world0_simps [simp]:
  "vaults world0 = Map.empty" "entropy world0 = of_nat" "drawn world0 = 0"
  "uuids world0 = (\<lambda>n. replicate (Suc n) CHR ''u'')" "uuid_n world0 = 0"
  "clock world0 = (\<lambda>n. int n + 1)" "clock_n world0 = 0" "io world0 = (\<lambda>_. IoOk)" "io_n world0 = 0"
  by (simp_all add: world0_def)

lemma vault_world_eq: "vault_world = after_create vault0 world0"
  by (simp add: vault_world_def vault0_def createVault_eq)

lemma vid_vault0 [simp]: "vid vault0 = ''u''"
  by (simp add: vault0_def created_def Let_def)

lemma vault_world_simps [simp]:
  "vaults vault_world = [''u'' \<mapsto> vault0]" "entropy vault_world = of_nat" "drawn vault_world = 28"
  "uuids vault_world = (\<lambda>n. replicate (Suc n) CHR ''u'')" "uuid_n vault_world = 1"
  "clock vault_world = (\<lambda>n. int n + 1)" "clock_n vault_world = 1"
  "io vault_world = (\<lambda>_. IoOk)" "io_n vault_world = 1"
  by (simp_all add: vault_world_eq after_create_def)

lemma unlock_vault0_right: "unlock ref_platform ''hunter2'' vault0 = Inr defaultVaultData"
  unfolding vault0_def by (rule unlock_created [OF platform_ok_ref])

lemma unlock_vault0_wrong: "unlock ref_platform ''wrong'' vault0 = Inl OperationError"
  apply (simp add: unlock_def vault0_def created_def Let_def ref_platform_def decrypt_def
      comp_def byte_of_char_of_byte)
  apply (simp add: ref_decrypt_def ref_encrypt_def fresh_salt_def fresh_iv_def byte_of_char_def)
  done

lemma store_wf_world0: "store_wf world0"
  by (simp add: store_wf_def)

lemma store_wf_vault_world: "store_wf vault_world"
  by (simp add: store_wf_def)

lemma ref_decodeBase64 [simp]: "decodeBase64 ref_platform s = Some (map byte_of_char s)"
  by (simp add: ref_platform_def)

lemma updateVault_vault_world:
  "updateVault ref_platform ''u'' pw data None vault_world =
     (Inr (meta (rewritten ref_platform vault0
                   (PBKDF2 ref_platform pw (map byte_of_char (salt vault0)))
                   (JSON_stringify ref_platform data) None (fresh_iv vault_world) 2)),
      after_update (rewritten ref_platform vault0
                   (PBKDF2 ref_platform pw (map byte_of_char (salt vault0)))
                   (JSON_stringify ref_platform data) None (fresh_iv vault_world) 2) vault_world)"
proof -
  have "now vault_world = 2" by (simp add: now_def)
  then show ?thesis
    unfolding updateVault_def
    using updateVault_text_InrI [of vault_world "''u''" vault0 ref_platform
        "map byte_of_char (salt vault0)" pw "JSON_stringify ref_platform data" None]
    by simp
qed

lemma flaky_world_simps [simp]:
  "vaults flaky_world = [''u'' \<mapsto> vault0]" "io_n flaky_world = 1"
  "io flaky_world = (\<lambda>n. if n = 2 then RequestFails else IoOk)"
  by (simp_all add: flaky_world_def)

lemma openVault_vault_world:
  "openVault ref_platform ''u'' ''hunter2'' vault_world =
     (Inr (meta (accessed vault0 2), defaultVaultData), after_open vault0 vault_world)"
proof -
  have "now vault_world = 2" by (simp add: now_def)
  then show ?thesis
    using openVault_InrI [of vault_world "''u''" vault0 ref_platform "''hunter2''" defaultVaultData]
    by (simp add: unlock_vault0_right)
qed

lemma updateCredential_missing:
  "updateCredential ref_platform ''u'' ''hunter2'' c u vault_world =
     (Inl (Error ''Credential not found''), after_open vault0 vault_world)"
  by (simp add: updateCredential_def andThen_def openVault_vault_world defaultVaultData_def
      throw_def)


lemma opened_eq:
  "opened_session = session0\<lparr>isLoading := True, error_msg := None,
      currentVault := Some (meta (accessed vault0 2)), vaultData := Some defaultVaultData,
      masterPassword := Some ''hunter2'', isLocked := False, isLoading := False\<rparr>"
  "opened_world = after_open vault0 vault_world"
  by (simp_all add: opened_session_def opened_world_def openExistingVault_def
      openVault_vault_world Let_def)

lemma opened_simps [simp]:
  "currentVault opened_session = Some (meta (accessed vault0 2))"
  "vaultData opened_session = Some defaultVaultData"
  "vaults opened_world = [''u'' \<mapsto> accessed vault0 2]"
  "io opened_world = (\<lambda>_. IoOk)" "io_n opened_world = 3"
  "entropy opened_world = of_nat" "drawn opened_world = 28"
  "clock opened_world = (\<lambda>n. int n + 1)" "clock_n opened_world = 2"
  by (simp_all add: opened_eq now_def)

lemma store_wf_opened_world: "store_wf opened_world"
  by (simp add: store_wf_def)

lemma vid_meta [simp]: "vid (meta ev) = vid ev"
  by (simp add: meta_def)

lemma ctx_changeMasterPassword_opened:
  "ctx_changeMasterPassword ref_platform ''hunter2'' ''s3cret'' opened_session opened_world =
     (Inr (),
      opened_session\<lparr>isLoading := True, error_msg := None, masterPassword := Some ''s3cret'',
                       isLoading := False\<rparr>,
      after_update stale opened_world)"
proof -
  have "now opened_world = 3" by (simp add: now_def)
  then have "updateVault_text ref_platform ''u'' ''hunter2''
          (JSON_stringify ref_platform defaultVaultData) None opened_world =
        (Inr (meta stale), after_update stale opened_world)"
    using updateVault_text_InrI [of opened_world "''u''" "accessed vault0 2" ref_platform
        "map byte_of_char (salt vault0)" "''hunter2''"
        "JSON_stringify ref_platform defaultVaultData" None]
    by (simp add: stale_def)
  then show ?thesis
    by (simp add: ctx_changeMasterPassword_def Let_def)
qed

lemma unlock_stale_new: "unlock ref_platform ''s3cret'' stale = Inl OperationError"
  apply (simp add: unlock_def stale_def rewritten_def vault0_def created_def Let_def
      ref_platform_def decrypt_def comp_def byte_of_char_of_byte accessed_def)
  apply (simp add: ref_decrypt_def ref_encrypt_def fresh_salt_def fresh_iv_def byte_of_char_def)
  done


section \<open>The round trip through encryption\<close>

lemma round_trip_eq:
  assumes "platform_ok P"
  shows "fst (round_trip P p v w) = Inr (json_image v)"
  using assms
  by (simp add: round_trip_def generateKeyFromPassword_def andThen_def ret_def encrypt_def
      encrypt_text_eq liftE_def decrypt_def platform_ok_def)

lemma json_number_finite: "is_finite n \<Longrightarrow> json_number n = n"
  by (cases n) simp_all

lemma json_image_finite:
  assumes "finite_numbers v"
  shows "json_image v = v"
proof -
  from assms have "\<forall>c \<in> set (credentials v). json_credential c = c"
    by (simp add: finite_numbers_def list_all_iff json_credential_def json_number_finite)
  then have 1: "map json_credential (credentials v) = credentials v"
    by (simp add: map_idI)
  have 2: "map_option json_settings (settings v) = settings v"
    using assms
    by (auto simp: finite_numbers_def json_settings_def json_number_finite
        split: option.splits)
  show ?thesis by (simp add: json_image_def 1 2)
qed
section \<open>Opening a vault\<close>

text \<open>
  Claim C1. When IndexedDB answers and holds no record under the id, \<open>openVault\<close>
  fails with \<open>Vault not found\<close>. When a record is there, every failure to decrypt it,
  whatever its cause (a Base64 field that does not decode, an authentication failure of
  AES-GCM under a wrong key or on damaged bytes, text that does not parse), ends in the
  same error and leaves the same world: the cause is not visible. Whenever \<open>openVault\<close>
  fails, the store is what it was.
\<close>

theorem C1_openVault_errors:
  "(io w (io_n w) = IoOk \<and> vaults w i = None \<longrightarrow>
      openVault P i pw w = (Inl (Error ''Vault not found''), tick w)) \<and>
   (\<forall>ev cause. io w (io_n w) = IoOk \<and> vaults w i = Some ev \<and> unlock P pw ev = Inl cause \<longrightarrow>
      openVault P i pw w =
        (Inl (Error ''Incorrect master password or corrupted data''), tick w)) \<and>
   (\<forall>e w'. openVault P i pw w = (Inl e, w') \<longrightarrow> vaults w' = vaults w)"
proof (intro conjI allI impI)
  assume "io w (io_n w) = IoOk \<and> vaults w i = None"
  then show "openVault P i pw w = (Inl (Error ''Vault not found''), tick w)"
    by (simp add: openVault_eq)
next
  fix ev cause
  assume "io w (io_n w) = IoOk \<and> vaults w i = Some ev \<and> unlock P pw ev = Inl cause"
  then show "openVault P i pw w =
        (Inl (Error ''Incorrect master password or corrupted data''), tick w)"
    by (simp add: openVault_eq openVault_try_eq)
next
  fix e w'
  assume "openVault P i pw w = (Inl e, w')"
  then show "vaults w' = vaults w" by (rule openVault_Inl_store)
qed

theorem C1_openVault_errors_witness:
  "openVault ref_platform ''nowhere'' ''hunter2'' vault_world =
     (Inl (Error ''Vault not found''), tick vault_world) \<and>
   openVault ref_platform ''u'' ''wrong'' vault_world =
     (Inl (Error ''Incorrect master password or corrupted data''), tick vault_world) \<and>
   vaults (tick vault_world) = vaults vault_world"
proof -
  have a: "io vault_world (io_n vault_world) = IoOk \<and> vaults vault_world ''nowhere'' = None"
    by simp
  have b: "io vault_world (io_n vault_world) = IoOk \<and> vaults vault_world ''u'' = Some vault0 \<and>
           unlock ref_platform ''wrong'' vault0 = Inl OperationError"
    by (simp add: unlock_vault0_wrong)
  from C1_openVault_errors [of vault_world "''nowhere''" ref_platform "''hunter2''"] a
  have 1: "openVault ref_platform ''nowhere'' ''hunter2'' vault_world =
     (Inl (Error ''Vault not found''), tick vault_world)" by blast
  from C1_openVault_errors [of vault_world "''u''" ref_platform "''wrong''"] b
  have 2: "openVault ref_platform ''u'' ''wrong'' vault_world =
     (Inl (Error ''Incorrect master password or corrupted data''), tick vault_world)" by blast
  from C1_openVault_errors [of vault_world "''u''" ref_platform "''wrong''"] 2
  have 3: "vaults (tick vault_world) = vaults vault_world" by blast
  from 1 2 3 show ?thesis by blast
qed

section \<open>Updating a vault\<close>

text \<open>
  Claim C2, as the code has it. \<open>updateVault\<close> never compares the password with the
  vault's: for every password, when the stored salt decodes and IndexedDB accepts both
  requests, it succeeds and files the new data, encrypted under the key derived from
  the given password and the stored salt. When it fails on an existing record that
  IndexedDB has returned, the error is \<open>Failed to update vault\<close> and the store is what it
  was.
\<close>

theorem C2_updateVault_does_not_check:
  "(\<forall>ev salt'. vaults w i = Some ev \<and> decodeBase64 P (salt ev) = Some salt' \<and>
       io w (io_n w) = IoOk \<and> io w (Suc (io_n w)) = IoOk \<longrightarrow>
       (\<exists>v w'. updateVault P i pw data newName w = (Inr v, w') \<and>
          vaults w' (vid ev) =
            Some (rewritten P ev (PBKDF2 P pw salt') (JSON_stringify P data) newName
                    (fresh_iv w) (now w)))) \<and>
   (\<forall>ev e w'. vaults w i = Some ev \<and> io w (io_n w) = IoOk \<and>
       updateVault P i pw data newName w = (Inl e, w') \<longrightarrow>
       e = Error ''Failed to update vault'' \<and> vaults w' = vaults w)"
proof (intro conjI allI impI)
  fix ev salt'
  assume h: "vaults w i = Some ev \<and> decodeBase64 P (salt ev) = Some salt' \<and>
       io w (io_n w) = IoOk \<and> io w (Suc (io_n w)) = IoOk"
  then have "updateVault P i pw data newName w =
      (Inr (meta (rewritten P ev (PBKDF2 P pw salt') (JSON_stringify P data) newName
                    (fresh_iv w) (now w))),
       after_update (rewritten P ev (PBKDF2 P pw salt') (JSON_stringify P data) newName
                    (fresh_iv w) (now w)) w)"
    unfolding updateVault_def by (intro updateVault_text_InrI) simp_all
  then show "\<exists>v w'. updateVault P i pw data newName w = (Inr v, w') \<and>
          vaults w' (vid ev) =
            Some (rewritten P ev (PBKDF2 P pw salt') (JSON_stringify P data) newName
                    (fresh_iv w) (now w))"
    by (simp add: after_update_def)
next
  fix ev e w'
  assume h: "vaults w i = Some ev \<and> io w (io_n w) = IoOk \<and>
       updateVault P i pw data newName w = (Inl e, w')"
  then show "e = Error ''Failed to update vault''"
    by (auto simp: updateVault_def updateVault_text_eq split: prod.splits sum.splits)
next
  fix ev e w'
  assume h: "vaults w i = Some ev \<and> io w (io_n w) = IoOk \<and>
       updateVault P i pw data newName w = (Inl e, w')"
  then show "vaults w' = vaults w"
    using updateVault_text_Inl_store [of P i pw "JSON_stringify P data" newName w e w']
    by (simp add: updateVault_def)
qed

text \<open>
  Claim C2 as stated fails: the vault created with \<open>hunter2\<close> does not open with
  \<open>wrong\<close>, and \<open>updateVault\<close> with \<open>wrong\<close> succeeds and replaces the stored record.
\<close>

theorem C2_wrong_password_counterexample:
  "vaults vault_world ''u'' = Some vault0 \<and>
   unlock ref_platform ''hunter2'' vault0 = Inr defaultVaultData \<and>
   unlock ref_platform ''wrong'' vault0 = Inl OperationError \<and>
   fst (updateVault ref_platform ''u'' ''wrong'' defaultVaultData None vault_world) =
     Inr \<lparr>vid = ''u'', name = ''Personal'', createdAt = 1, lastAccessed = 2, lastModified = 2\<rparr> \<and>
   vaults (snd (updateVault ref_platform ''u'' ''wrong'' defaultVaultData None vault_world)) ''u''
     \<noteq> Some vault0"
proof -
  let ?r = "rewritten ref_platform vault0
              (PBKDF2 ref_platform ''wrong'' (map byte_of_char (salt vault0)))
              (JSON_stringify ref_platform defaultVaultData) None (fresh_iv vault_world) 2"
  have m: "lastModified vault0 = 1" "createdAt vault0 = 1" "name vault0 = ''Personal''"
    by (simp_all add: vault0_def now_def)
  have r: "vid ?r = ''u''" "name ?r = ''Personal''" "createdAt ?r = 1" "lastAccessed ?r = 2"
    "lastModified ?r = 2"
    using m by (simp_all add: rewritten_def)
  have run: "updateVault ref_platform ''u'' ''wrong'' defaultVaultData None vault_world =
      (Inr (meta ?r), after_update ?r vault_world)"
    by (rule updateVault_vault_world)
  have 1: "fst (updateVault ref_platform ''u'' ''wrong'' defaultVaultData None vault_world) =
     Inr \<lparr>vid = ''u'', name = ''Personal'', createdAt = 1, lastAccessed = 2, lastModified = 2\<rparr>"
    unfolding run using r by (simp add: meta_def)
  have "vaults (after_update ?r vault_world) ''u'' = Some ?r"
    using r(1) by (simp add: after_update_def)
  moreover have "?r \<noteq> vault0" using r(5) m(1) by auto
  ultimately have 2: "vaults (snd (updateVault ref_platform ''u'' ''wrong'' defaultVaultData None
      vault_world)) ''u'' \<noteq> Some vault0"
    unfolding run by simp
  from 1 2 show ?thesis
    by (simp add: unlock_vault0_right unlock_vault0_wrong)
qed

theorem C2_updateVault_does_not_check_witness:
  "(\<exists>v w'. updateVault ref_platform ''u'' ''wrong'' defaultVaultData None vault_world = (Inr v, w') \<and>
      vaults w' ''u'' =
        Some (rewritten ref_platform vault0
                (PBKDF2 ref_platform ''wrong'' (map byte_of_char (salt vault0)))
                (JSON_stringify ref_platform defaultVaultData) None (fresh_iv vault_world) 2)) \<and>
   (\<exists>w'. updateVault ref_platform ''u'' ''wrong'' defaultVaultData None flaky_world =
            (Inl (Error ''Failed to update vault''), w') \<and>
         vaults w' = vaults flaky_world)"
proof -
  have h1: "vaults vault_world ''u'' = Some vault0 \<and>
            decodeBase64 ref_platform (salt vault0) = Some (map byte_of_char (salt vault0)) \<and>
            io vault_world (io_n vault_world) = IoOk \<and>
            io vault_world (Suc (io_n vault_world)) = IoOk"
    by simp
  have n: "now vault_world = 2" by (simp add: now_def)
  from C2_updateVault_does_not_check [of vault_world "''u''" ref_platform "''wrong''"
      defaultVaultData None] h1
  have 1: "\<exists>v w'. updateVault ref_platform ''u'' ''wrong'' defaultVaultData None vault_world = (Inr v, w') \<and>
      vaults w' (vid vault0) =
        Some (rewritten ref_platform vault0
                (PBKDF2 ref_platform ''wrong'' (map byte_of_char (salt vault0)))
                (JSON_stringify ref_platform defaultVaultData) None (fresh_iv vault_world)
                (now vault_world))"
    by blast
  obtain r w' where run:
    "updateVault ref_platform ''u'' ''wrong'' defaultVaultData None flaky_world = (r, w')"
    by (cases "updateVault ref_platform ''u'' ''wrong'' defaultVaultData None flaky_world")
  have "\<exists>e. r = Inl e"
    using run
    by (auto simp: updateVault_def updateVault_text_eq updateVault_try_eq Let_def
        split: prod.splits sum.splits)
  then obtain e where e: "r = Inl e" by blast
  have h2: "vaults flaky_world ''u'' = Some vault0 \<and> io flaky_world (io_n flaky_world) = IoOk \<and>
      updateVault ref_platform ''u'' ''wrong'' defaultVaultData None flaky_world = (Inl e, w')"
    using run e by simp
  from C2_updateVault_does_not_check [of flaky_world "''u''" ref_platform "''wrong''"
      defaultVaultData None] h2
  have 2: "e = Error ''Failed to update vault'' \<and> vaults w' = vaults flaky_world"
    by blast
  from 1 2 run e n show ?thesis by auto
qed

section \<open>Changing the master password from the user interface\<close>

text \<open>
  Claim C3 says that after a successful change of the master password the vault opens
  with the new password, no longer with the old one, and carries a fresh salt. The
  \<open>changeMasterPassword\<close> of the context, which is the one the user interface calls,
  does not do that. On a platform that meets \<open>platform_ok\<close>, with a vault open in the
  session, whenever it succeeds the stored record keeps its salt and decrypts under the
  current password to the session's data (as JSON carries them), the store it leaves
  does not depend on the new password at all, and the session records the new password
  as the master password.
\<close>

theorem C3_context_keeps_old_key:
  assumes "platform_ok P" "store_wf w"
    and "currentVault s = Some cv" "vaultData s = Some d" "vaults w (vid cv) = Some ev"
    and "ctx_changeMasterPassword P cur new s w = (Inr u, s', w')"
  shows "\<exists>ev'. vaults w' (vid cv) = Some ev' \<and> salt ev' = salt ev \<and>
           unlock P cur ev' = Inr (json_image d) \<and> masterPassword s' = Some new \<and>
           (\<forall>other. snd (snd (ctx_changeMasterPassword P cur other s w)) = w')"
proof -
  from assms(2,5) have k: "vid ev = vid cv" by (simp add: store_wf_def)
  from assms(3,4,6) obtain v where
    u: "updateVault_text P (vid cv) cur (JSON_stringify P d) None w = (Inr v, w')"
    and s': "s' = s\<lparr>isLoading := True, error_msg := None, masterPassword := Some new,
                     isLoading := False\<rparr>"
    by (auto simp: ctx_changeMasterPassword_def Let_def split: prod.splits sum.splits)
  from updateVault_text_InrD [OF u] assms(5) obtain salt' where
    salt: "decodeBase64 P (salt ev) = Some salt'" and
    w': "w' = after_update (rewritten P ev (PBKDF2 P cur salt') (JSON_stringify P d) None
                (fresh_iv w) (now w)) w" by auto
  let ?ev' = "rewritten P ev (PBKDF2 P cur salt') (JSON_stringify P d) None (fresh_iv w) (now w)"
  have 1: "vaults w' (vid cv) = Some ?ev'" unfolding w' by (simp add: k)
  have 2: "salt ?ev' = salt ev" by (simp add: rewritten_def)
  have 3: "unlock P cur ?ev' = Inr (json_image d)" by (rule unlock_rewritten [OF assms(1) salt])
  have 4: "masterPassword s' = Some new" by (simp add: s')
  have 5: "\<forall>other. snd (snd (ctx_changeMasterPassword P cur other s w)) = w'"
    using assms(3,4) u by (simp add: ctx_changeMasterPassword_def Let_def)
  from 1 2 3 4 5 show ?thesis by blast
qed

theorem C3_context_keeps_old_key_witness:
  "platform_ok ref_platform \<and> store_wf opened_world \<and>
   currentVault opened_session = Some (meta (accessed vault0 2)) \<and>
   vaultData opened_session = Some defaultVaultData \<and>
   vaults opened_world ''u'' = Some (accessed vault0 2) \<and>
   (\<exists>s' w' ev'.
      ctx_changeMasterPassword ref_platform ''hunter2'' ''s3cret'' opened_session opened_world =
        (Inr (), s', w') \<and>
      masterPassword s' = Some ''s3cret'' \<and>
      vaults w' ''u'' = Some ev' \<and> salt ev' = salt vault0 \<and>
      unlock ref_platform ''hunter2'' ev' = Inr defaultVaultData \<and>
      unlock ref_platform ''s3cret'' ev' = Inl OperationError \<and>
      openVault ref_platform ''u'' ''s3cret'' w' =
        (Inl (Error ''Incorrect master password or corrupted data''), tick w'))"
proof -
  let ?s' = "opened_session\<lparr>isLoading := True, error_msg := None,
               masterPassword := Some ''s3cret'', isLoading := False\<rparr>"
  let ?w' = "after_update stale opened_world"
  have cv: "currentVault opened_session = Some (meta (accessed vault0 2))" by simp
  have vd: "vaultData opened_session = Some defaultVaultData" by simp
  have st: "vaults opened_world (vid (meta (accessed vault0 2))) = Some (accessed vault0 2)" by simp
  from C3_context_keeps_old_key [OF platform_ok_ref store_wf_opened_world cv vd st
      ctx_changeMasterPassword_opened]
  obtain ev' where ev': "vaults ?w' (vid (meta (accessed vault0 2))) = Some ev'"
    "salt ev' = salt (accessed vault0 2)"
    "unlock ref_platform ''hunter2'' ev' = Inr (json_image defaultVaultData)"
    "masterPassword ?s' = Some ''s3cret''" by blast
  have vs: "vid stale = ''u''" by (simp add: stale_def)
  have stored: "vaults ?w' ''u'' = Some stale" by (simp add: vs)
  with ev'(1) have e: "ev' = stale" by simp
  have o: "openVault ref_platform ''u'' ''s3cret'' ?w' =
        (Inl (Error ''Incorrect master password or corrupted data''), tick ?w')"
    by (simp add: openVault_eq openVault_try_eq unlock_stale_new vs)
  show ?thesis
    using platform_ok_ref store_wf_opened_world ctx_changeMasterPassword_opened ev' e o
      unlock_stale_new
    by (intro conjI exI [of _ ?s'] exI [of _ ?w'] exI [of _ ev']) simp_all
qed

section \<open>All or nothing\<close>

text \<open>
  Claim C4, as the code has it. In a store that files every record under its own id,
  each of the eight operations either succeeds, and then one whole record has been filed
  under the vault's id and nothing else has changed, or fails. When \<open>createVault\<close>,
  \<open>openVault\<close> or \<open>updateVault\<close> fails, the store is what it was. The other five
  operations begin with \<open>openVault\<close>, which files the record with a new \<open>lastAccessed\<close>;
  when a later step fails, the store is what it was except, at most, for that one field
  of that one record.
\<close>

theorem C4_all_or_nothing:
  assumes "store_wf w" and "run P op w = (r, w')"
  shows "case r of
           Inr _ \<Rightarrow> rewrote (target op w) w w'
         | Inl _ \<Rightarrow> if opens_first op then untouched_or_accessed (target op w) w w'
                    else vaults w' = vaults w"
proof (cases r)
  case (Inl e)
  with assms show ?thesis
    by (cases op)
       (auto simp: discard_Inl
          dest: createVault_Inl_store openVault_Inl_store updateVault_Inl_store
                changeMasterPassword_Inl addCredential_Inl updateCredential_Inl
                deleteCredential_Inl updateVaultSettings_Inl)
next
  case (Inr u)
  with assms show ?thesis
    by (cases op)
       (auto simp: discard_Inr
          dest: createVault_Inr_rewrote openVault_Inr_rewrote updateVault_Inr_rewrote
                changeMasterPassword_Inr addCredential_Inr updateCredential_Inr
                deleteCredential_Inr updateVaultSettings_Inr)
qed

text \<open>
  Claim C4 as stated fails: \<open>updateCredential\<close> for a credential id the vault does not
  hold fails with \<open>Credential not found\<close>, and the stored record is no longer the one
  stored before: its \<open>lastAccessed\<close> has moved from 1 to 2.
\<close>

theorem C4_lastAccessed_counterexample:
  "vaults vault_world ''u'' = Some vault0 \<and>
   lastAccessed vault0 = 1 \<and>
   fst (updateCredential ref_platform ''u'' ''hunter2'' ''missing'' no_updates vault_world) =
     Inl (Error ''Credential not found'') \<and>
   vaults (snd (updateCredential ref_platform ''u'' ''hunter2'' ''missing'' no_updates vault_world))
     ''u'' = Some (vault0\<lparr>lastAccessed := 2\<rparr>)"
  by (simp add: updateCredential_missing vault0_def now_def accessed_def)

theorem C4_all_or_nothing_witness:
  "store_wf vault_world \<and>
   run ref_platform (UpdateCredential ''u'' ''hunter2'' ''missing'' no_updates) vault_world =
     (Inl (Error ''Credential not found''), after_open vault0 vault_world) \<and>
   untouched_or_accessed ''u'' vault_world (after_open vault0 vault_world) \<and>
   run ref_platform (OpenVault ''u'' ''hunter2'') vault_world = (Inr (), after_open vault0 vault_world) \<and>
   rewrote ''u'' vault_world (after_open vault0 vault_world)"
proof -
  have 1: "run ref_platform (UpdateCredential ''u'' ''hunter2'' ''missing'' no_updates) vault_world =
     (Inl (Error ''Credential not found''), after_open vault0 vault_world)"
    by (simp add: discard_def updateCredential_missing)
  have 2: "run ref_platform (OpenVault ''u'' ''hunter2'') vault_world =
     (Inr (), after_open vault0 vault_world)"
    by (simp add: discard_def openVault_vault_world)
  from C4_all_or_nothing [OF store_wf_vault_world 1] C4_all_or_nothing [OF store_wf_vault_world 2]
    1 2 store_wf_vault_world
  show ?thesis by simp
qed

section \<open>Encryption round trip\<close>

text \<open>
  Claim C5, as the code has it. On a platform that meets \<open>platform_ok\<close>, for every value
  \<open>v\<close> and password \<open>p\<close>: the key derived by PBKDF2 from \<open>p\<close> and 16 fresh random bytes
  of salt encrypts \<open>v\<close> under 12 fresh random bytes of iv; deriving again from \<open>p\<close> and
  the returned salt gives the same key, and decrypting the ciphertext with that key and
  the iv drawn during encryption returns \<open>v\<close> as JSON carries it, which is \<open>v\<close> itself
  when every number in \<open>v\<close> is finite.
\<close>

theorem C5_round_trip:
  assumes "platform_ok P"
  shows "\<exists>key salt' w1 ct iv' w2.
           generateKeyFromPassword P p None w = (Inr (key, salt'), w1) \<and>
           salt' = fresh_salt w \<and> key = PBKDF2 P p salt' \<and>
           encrypt P key v w1 = (Inr (ct, iv'), w2) \<and> iv' = fresh_iv w1 \<and>
           generateKeyFromPassword P p (Some salt') w2 = (Inr (key, salt'), w2) \<and>
           decrypt P key ct iv' = Inr (json_image v) \<and>
           (finite_numbers v \<longrightarrow> decrypt P key ct iv' = Inr v)"
  using assms
  by (simp add: generateKeyFromPassword_def andThen_def ret_def encrypt_def encrypt_text_eq
      decrypt_def platform_ok_def json_image_finite getRandomValues_def fresh_salt_def)

text \<open>
  Claim C5 as stated, for every value, fails: a vault whose \<open>autoLockTimeout\<close> is \<open>NaN\<close>
  comes back from the round trip with \<open>null\<close> in that field.
\<close>

theorem C5_NaN_counterexample:
  "fst (round_trip ref_platform ''hunter2'' nan_data world0) = Inr null_data \<and>
   fst (round_trip ref_platform ''hunter2'' nan_data world0) \<noteq> Inr nan_data"
proof -
  have "json_image nan_data = null_data"
    by (simp add: json_image_def nan_data_def null_data_def json_settings_def json_number_def)
  then have 1: "fst (round_trip ref_platform ''hunter2'' nan_data world0) = Inr null_data"
    by (simp add: round_trip_eq [OF platform_ok_ref])
  have 2: "null_data \<noteq> nan_data" by (simp add: nan_data_def null_data_def)
  from 1 2 show ?thesis by simp
qed

theorem C5_round_trip_witness:
  "platform_ok ref_platform \<and> finite_numbers defaultVaultData \<and>
   (\<exists>key salt' w1 ct iv' w2.
      generateKeyFromPassword ref_platform ''hunter2'' None world0 = (Inr (key, salt'), w1) \<and>
      encrypt ref_platform key defaultVaultData w1 = (Inr (ct, iv'), w2) \<and>
      generateKeyFromPassword ref_platform ''hunter2'' (Some salt') w2 = (Inr (key, salt'), w2) \<and>
      decrypt ref_platform key ct iv' = Inr defaultVaultData)"
proof -
  have f: "finite_numbers defaultVaultData"
    by (simp add: finite_numbers_def defaultVaultData_def)
  from C5_round_trip [OF platform_ok_ref, of "''hunter2''" world0 defaultVaultData] f
  have "\<exists>key salt' w1 ct iv' w2.
      generateKeyFromPassword ref_platform ''hunter2'' None world0 = (Inr (key, salt'), w1) \<and>
      encrypt ref_platform key defaultVaultData w1 = (Inr (ct, iv'), w2) \<and>
      generateKeyFromPassword ref_platform ''hunter2'' (Some salt') w2 = (Inr (key, salt'), w2) \<and>
      decrypt ref_platform key ct iv' = Inr defaultVaultData"
    by blast
  with platform_ok_ref f show ?thesis by blast
qed

section \<open>Credentials added in sequence\<close>



section \<open>Creating a vault\<close>

text \<open>
  Claim C7. On a platform that meets \<open>platform_ok\<close>, when IndexedDB accepts the
  request, \<open>createVault\<close> returns the UUID it drew and files under it a record with the
  given name and a fresh salt, whose ciphertext decrypts under the password and that
  salt to the default vault data: no credentials and the categories Login, Financial,
  Personal, Work. A following \<open>openVault\<close> with the same password succeeds when
  IndexedDB accepts its two requests, and whenever it succeeds it returns exactly the
  default vault data.
\<close>

theorem C7_createVault:
  assumes "platform_ok P" and "io w (io_n w) = IoOk"
  shows "\<exists>i w1 ev.
           createVault P name' pw w = (Inr i, w1) \<and>
           i = uuids w (uuid_n w) \<and>
           vaults w1 i = Some ev \<and> vid ev = i \<and> name ev = name' \<and>
           salt ev = encodeBase64 P (fresh_salt w) \<and>
           unlock P pw ev = Inr defaultVaultData \<and>
           credentials defaultVaultData = [] \<and>
           map_option categories (settings defaultVaultData) =
             Some (Some [''Login'', ''Financial'', ''Personal'', ''Work'']) \<and>
           (io w (Suc (io_n w)) = IoOk \<and> io w (Suc (Suc (io_n w))) = IoOk \<longrightarrow>
              (\<exists>v w2. openVault P i pw w1 = (Inr (v, defaultVaultData), w2))) \<and>
           (\<forall>v d w2. openVault P i pw w1 = (Inr (v, d), w2) \<longrightarrow> d = defaultVaultData)"
proof -
  let ?ev = "created P name' pw w"
  let ?i = "uuids w (uuid_n w)"
  let ?w1 = "after_create ?ev w"
  have run: "createVault P name' pw w = (Inr ?i, ?w1)"
    using assms(2) by (simp add: createVault_eq)
  have stored: "vaults ?w1 ?i = Some ?ev" by simp
  have plain: "unlock P pw ?ev = Inr defaultVaultData"
    by (rule unlock_created [OF assms(1)])
  have reopen: "io w (Suc (io_n w)) = IoOk \<and> io w (Suc (Suc (io_n w))) = IoOk \<longrightarrow>
      (\<exists>v w2. openVault P ?i pw ?w1 = (Inr (v, defaultVaultData), w2))"
  proof
    assume "io w (Suc (io_n w)) = IoOk \<and> io w (Suc (Suc (io_n w))) = IoOk"
    then have "openVault P ?i pw ?w1 =
        (Inr (meta (accessed ?ev (now ?w1)), defaultVaultData), after_open ?ev ?w1)"
      using stored plain by (intro openVault_InrI) simp_all
    then show "\<exists>v w2. openVault P ?i pw ?w1 = (Inr (v, defaultVaultData), w2)" by blast
  qed
  have only: "\<forall>v d w2. openVault P ?i pw ?w1 = (Inr (v, d), w2) \<longrightarrow> d = defaultVaultData"
  proof (intro allI impI)
    fix v d w2
    assume "openVault P ?i pw ?w1 = (Inr (v, d), w2)"
    from openVault_InrD [OF this] stored plain show "d = defaultVaultData" by auto
  qed
  have dflt: "credentials defaultVaultData = [] \<and>
        map_option categories (settings defaultVaultData) =
          Some (Some [''Login'', ''Financial'', ''Personal'', ''Work''])"
    by (simp add: defaultVaultData_def)
  from run stored plain reopen only dflt show ?thesis by simp
qed

theorem C7_createVault_witness:
  "platform_ok ref_platform \<and> io world0 (io_n world0) = IoOk \<and>
   (\<exists>w1 ev v w2.
      createVault ref_platform ''Personal'' ''hunter2'' world0 = (Inr ''u'', w1) \<and>
      vaults w1 ''u'' = Some ev \<and> name ev = ''Personal'' \<and>
      unlock ref_platform ''hunter2'' ev = Inr defaultVaultData \<and>
      openVault ref_platform ''u'' ''hunter2'' w1 = (Inr (v, defaultVaultData), w2))"
proof -
  have io0: "io world0 (io_n world0) = IoOk" by simp
  have io1: "io world0 (Suc (io_n world0)) = IoOk \<and> io world0 (Suc (Suc (io_n world0))) = IoOk"
    by simp
  have u: "uuids world0 (uuid_n world0) = ''u''" by simp
  from C7_createVault [OF platform_ok_ref io0, of "''Personal''" "''hunter2''"] io1 u
  show ?thesis using platform_ok_ref io0 by metis
qed

section \<open>Password generation\<close>

lemma getRandomValues_ok:
  "n \<le> 65536 \<Longrightarrow>
   getRandomValues n w = (Inr (map (entropy w) [drawn w ..< drawn w + n]), w\<lparr>drawn := drawn w + n\<rparr>)"
  by (simp add: getRandomValues_def)

lemma charset_empty_iff:
  "charset options = [] \<longleftrightarrow>
   \<not> uppercase options \<and> \<not> lowercase options \<and> \<not> numbers options \<and> \<not> symbols options"
  by (simp add: charset_def uppercaseChars_def lowercaseChars_def numberChars_def symbolChars_def)

lemma set_charset:
  "set (charset options) =
     (if uppercase options then set uppercaseChars else {}) \<union>
     (if lowercase options then set lowercaseChars else {}) \<union>
     (if numbers options then set numberChars else {}) \<union>
     (if symbols options then set symbolChars else {})"
  by (auto simp: charset_def)

text \<open>
  Claim C8, as the code has it. With no character class selected \<open>generatePassword\<close>
  throws its validation error. With at least one class selected and a length of at most
  65536 it returns a string of exactly that many characters; the \<open>i\<close>-th character is
  the combined character set indexed by the \<open>i\<close>-th random byte modulo the size of the
  set, so every character belongs to a selected class, and with only uppercase selected
  every character is one of A to Z. (\<open>crypto.getRandomValues\<close> refuses more than 65536
  bytes, so the bound on the length is needed.)
\<close>

theorem C8_generatePassword:
  "(\<not> uppercase options \<and> \<not> lowercase options \<and> \<not> numbers options \<and> \<not> symbols options \<longrightarrow>
      generatePassword len options w =
        (Inl (Error ''At least one character type must be selected''), w)) \<and>
   ((uppercase options \<or> lowercase options \<or> numbers options \<or> symbols options) \<and> len \<le> 65536 \<longrightarrow>
      (\<exists>pw. generatePassword len options w = (Inr pw, w\<lparr>drawn := drawn w + len\<rparr>) \<and>
            length pw = len \<and>
            (\<forall>i < len. pw ! i =
               charset options ! (unat (entropy w (drawn w + i)) mod length (charset options))) \<and>
            set pw \<subseteq> set (charset options) \<and>
            (uppercase options \<and> \<not> lowercase options \<and> \<not> numbers options \<and> \<not> symbols options \<longrightarrow>
               set pw \<subseteq> set ''ABCDEFGHIJKLMNOPQRSTUVWXYZ'')))"
proof (intro conjI impI)
  assume "\<not> uppercase options \<and> \<not> lowercase options \<and> \<not> numbers options \<and> \<not> symbols options"
  then have "charset options = []" by (simp add: charset_empty_iff)
  then show "generatePassword len options w =
        (Inl (Error ''At least one character type must be selected''), w)"
    by (simp add: generatePassword_def)
next
  assume h: "(uppercase options \<or> lowercase options \<or> numbers options \<or> symbols options) \<and> len \<le> 65536"
  let ?chars = "charset options"
  let ?pw = "map (\<lambda>b. ?chars ! (unat b mod length ?chars)) (map (entropy w) [drawn w ..< drawn w + len])"
  from h have ne: "?chars \<noteq> []" by (simp add: charset_empty_iff)
  then have pos: "0 < length ?chars" by simp
  have run: "generatePassword len options w = (Inr ?pw, w\<lparr>drawn := drawn w + len\<rparr>)"
    using h ne by (simp add: generatePassword_def getRandomValues_ok Let_def)
  have sub: "set ?pw \<subseteq> set ?chars"
    using pos by (auto simp: mod_less_divisor)
  have up: "uppercase options \<and> \<not> lowercase options \<and> \<not> numbers options \<and> \<not> symbols options \<longrightarrow>
               set ?pw \<subseteq> set ''ABCDEFGHIJKLMNOPQRSTUVWXYZ''"
  proof
    assume "uppercase options \<and> \<not> lowercase options \<and> \<not> numbers options \<and> \<not> symbols options"
    then have "?chars = ''ABCDEFGHIJKLMNOPQRSTUVWXYZ''"
      by (simp add: charset_def uppercaseChars_def)
    with sub show "set ?pw \<subseteq> set ''ABCDEFGHIJKLMNOPQRSTUVWXYZ''" by simp
  qed
  show "\<exists>pw. generatePassword len options w = (Inr pw, w\<lparr>drawn := drawn w + len\<rparr>) \<and>
            length pw = len \<and>
            (\<forall>i < len. pw ! i =
               charset options ! (unat (entropy w (drawn w + i)) mod length (charset options))) \<and>
            set pw \<subseteq> set (charset options) \<and>
            (uppercase options \<and> \<not> lowercase options \<and> \<not> numbers options \<and> \<not> symbols options \<longrightarrow>
               set pw \<subseteq> set ''ABCDEFGHIJKLMNOPQRSTUVWXYZ'')"
    using run sub up by (intro exI [of _ ?pw]) simp
qed

text \<open>
  Claim C8 as stated, for every length, fails: for 65537 characters of uppercase letters
  the call ends in \<open>QuotaExceededError\<close> and returns no string.
\<close>

theorem C8_quota_counterexample:
  "generatePassword 65537 only_uppercase world0 = (Inl QuotaExceededError, world0)"
  by (simp add: generatePassword_def getRandomValues_def only_uppercase_def charset_def uppercaseChars_def)

theorem C8_generatePassword_witness:
  "generatePassword 16 no_class world0 =
     (Inl (Error ''At least one character type must be selected''), world0) \<and>
   (\<exists>pw. generatePassword 16 only_uppercase world0 = (Inr pw, world0\<lparr>drawn := 16\<rparr>) \<and>
         length pw = 16 \<and> set pw \<subseteq> set ''ABCDEFGHIJKLMNOPQRSTUVWXYZ'')"
proof -
  have none: "\<not> uppercase no_class \<and> \<not> lowercase no_class \<and> \<not> numbers no_class \<and> \<not> symbols no_class"
    by (simp add: no_class_def)
  have some: "(uppercase only_uppercase \<or> lowercase only_uppercase \<or> numbers only_uppercase \<or>
               symbols only_uppercase) \<and> (16::nat) \<le> 65536"
    by (simp add: only_uppercase_def)
  have only: "uppercase only_uppercase \<and> \<not> lowercase only_uppercase \<and> \<not> numbers only_uppercase \<and>
              \<not> symbols only_uppercase"
    by (simp add: only_uppercase_def)
  have d: "drawn world0 + 16 = 16" by (simp add: world0_def)
  from C8_generatePassword [of no_class 16 world0] none
  have a: "generatePassword 16 no_class world0 =
     (Inl (Error ''At least one character type must be selected''), world0)" by blast
  from C8_generatePassword [of only_uppercase 16 world0] some only
  have b: "\<exists>pw. generatePassword 16 only_uppercase world0 = (Inr pw, world0\<lparr>drawn := drawn world0 + 16\<rparr>) \<and>
         length pw = 16 \<and> set pw \<subseteq> set ''ABCDEFGHIJKLMNOPQRSTUVWXYZ''" by blast
  from a b show ?thesis unfolding d by blast
qed

section \<open>Backup import\<close>

text \<open>
  Claim C9, as the code has it. For an input that parses to a value other than \<open>null\<close>:
  \<open>importData\<close> fails with \<open>Invalid backup format\<close> exactly when the value has no
  \<open>vaults\<close> property that is an array, and then it leaves IndexedDB as it found it.
  Otherwise, when every element of \<open>vaults\<close> is an
  object with a valid key under \<open>id\<close> and IndexedDB accepts every request, the elements
  are filed in order, each under its id (a later one replacing an earlier or existing one
  with the same id), and settings that are present and truthy, when they carry no \<open>id\<close>
  of their own or the id \<open>app-settings\<close>, replace what the slot \<open>app-settings\<close> holds
  by \<open>{id: 'app-settings', ...settings}\<close>.
\<close>

theorem C9_importData:
  assumes "JSON_parse_any jsonData = Some data" and "data \<noteq> JNull"
  shows
   "(\<forall>w'. importData JSON_parse_any jsonData w = (Inl (Error ''Invalid backup format''), w') \<longleftrightarrow>
          w' = w \<and> \<not> (\<exists>xs. get_prop data ''vaults'' = Inr (Some (JArr xs)))) \<and>
    (\<forall>xs. get_prop data ''vaults'' = Inr (Some (JArr xs)) \<and>
          (\<forall>v \<in> set xs. key_of v \<noteq> None) \<and>
          (\<forall>k \<le> length xs. raw_io w (raw_io_n w + k) = IoOk) \<longrightarrow>
       (included_settings data = None \<longrightarrow>
          importData JSON_parse_any jsonData w =
            (Inr (), w\<lparr>raw_io_n := raw_io_n w + length xs,
                        vault_objs := fold upsert xs (vault_objs w)\<rparr>)) \<and>
       (\<forall>st. included_settings data = Some st \<and>
             key_of (with_app_settings_id st) = Some (JStr ''app-settings'') \<longrightarrow>
          importData JSON_parse_any jsonData w =
            (Inr (), w\<lparr>raw_io_n := Suc (raw_io_n w + length xs),
                        vault_objs := fold upsert xs (vault_objs w),
                        setting_objs := (setting_objs w)(JStr ''app-settings'' \<mapsto>
                                          with_app_settings_id st)\<rparr>)) \<and>
       (\<forall>ps. included_settings data = Some (JObj ps) \<and>
             (map_of ps ''id'' = None \<or> map_of ps ''id'' = Some (JStr ''app-settings'')) \<longrightarrow>
          key_of (with_app_settings_id (JObj ps)) = Some (JStr ''app-settings'')))"
proof (intro conjI allI impI)
  fix w'
  from assms(2) obtain v where v: "get_prop data ''vaults'' = Inr v"
    by (rule get_prop_cases)
  show "importData JSON_parse_any jsonData w = (Inl (Error ''Invalid backup format''), w') \<longleftrightarrow>
          w' = w \<and> \<not> (\<exists>xs. get_prop data ''vaults'' = Inr (Some (JArr xs)))"
  proof (cases "\<exists>xs. v = Some (JArr xs)")
    case False
    have "importData JSON_parse_any jsonData w = (Inl (Error ''Invalid backup format''), w)"
      using False by (intro importData_not_array [of JSON_parse_any jsonData data v w, OF assms(1) v])
    moreover from False v have "\<not> (\<exists>xs. get_prop data ''vaults'' = Inr (Some (JArr xs)))"
      by simp
    ultimately show ?thesis by auto
  next
    case True
    then obtain xs where xs: "v = Some (JArr xs)" by blast
    have "importData JSON_parse_any jsonData w \<noteq> (Inl (Error ''Invalid backup format''), w')"
    proof
      assume f: "importData JSON_parse_any jsonData w = (Inl (Error ''Invalid backup format''), w')"
      show False
      proof (cases "saveAll xs w")
        case (Pair r w1)
        show False
        proof (cases r)
          case (Inl e)
          with Pair f importData_array [of JSON_parse_any jsonData data xs w, OF assms(1) v [unfolded xs]]
          have "saveAll xs w = (Inl (Error ''Invalid backup format''), w')" by simp
          from saveAll_Inl [OF this] show False by simp
        next
          case (Inr u)
          show False
          proof (cases "included_settings data")
            case None
            with Pair Inr f importData_array [of JSON_parse_any jsonData data xs w, OF assms(1) v [unfolded xs]]
            show False by simp
          next
            case (Some st)
            with Pair Inr f importData_array [of JSON_parse_any jsonData data xs w, OF assms(1) v [unfolded xs]]
            have "raw_put ''Failed to save settings''
                (\<lambda>w k v. w\<lparr>setting_objs := (setting_objs w)(k \<mapsto> v)\<rparr>)
                (with_app_settings_id st) w1 = (Inl (Error ''Invalid backup format''), w')"
              by (simp add: saveSettings_raw_def)
            from raw_put_Inl [OF this] show False by simp
          qed
        qed
      qed
    qed
    with v xs show ?thesis by simp
  qed
next
  fix xs
  assume h: "get_prop data ''vaults'' = Inr (Some (JArr xs)) \<and>
          (\<forall>v \<in> set xs. key_of v \<noteq> None) \<and>
          (\<forall>k \<le> length xs. raw_io w (raw_io_n w + k) = IoOk)"
  assume n: "included_settings data = None"
  from h have io: "\<forall>k < length xs. raw_io w (raw_io_n w + k) = IoOk" by simp
  from h n show "importData JSON_parse_any jsonData w =
            (Inr (), w\<lparr>raw_io_n := raw_io_n w + length xs,
                        vault_objs := fold upsert xs (vault_objs w)\<rparr>)"
    by (simp add: importData_array [of JSON_parse_any jsonData data xs w, OF assms(1)] saveAll_ok [OF io])
next
  fix xs st
  assume h: "get_prop data ''vaults'' = Inr (Some (JArr xs)) \<and>
          (\<forall>v \<in> set xs. key_of v \<noteq> None) \<and>
          (\<forall>k \<le> length xs. raw_io w (raw_io_n w + k) = IoOk)"
  assume s: "included_settings data = Some st \<and>
             key_of (with_app_settings_id st) = Some (JStr ''app-settings'')"
  from h have io: "\<forall>k < length xs. raw_io w (raw_io_n w + k) = IoOk" by simp
  from h have last: "raw_io w (raw_io_n w + length xs) = IoOk" by simp
  let ?w1 = "w\<lparr>raw_io_n := raw_io_n w + length xs, vault_objs := fold upsert xs (vault_objs w)\<rparr>"
  have io1: "raw_io ?w1 (raw_io_n ?w1) = IoOk" using last by simp
  from s have k: "key_of (with_app_settings_id st) = Some (JStr ''app-settings'')" by simp
  show "importData JSON_parse_any jsonData w =
            (Inr (), w\<lparr>raw_io_n := Suc (raw_io_n w + length xs),
                        vault_objs := fold upsert xs (vault_objs w),
                        setting_objs := (setting_objs w)(JStr ''app-settings'' \<mapsto>
                                          with_app_settings_id st)\<rparr>)"
    using h s
    by (simp add: importData_array [of JSON_parse_any jsonData data xs w, OF assms(1)]
        saveAll_ok [OF io] saveSettings_raw_ok [OF io1 k])
next
  fix xs ps
  assume "included_settings data = Some (JObj ps) \<and>
          (map_of ps ''id'' = None \<or> map_of ps ''id'' = Some (JStr ''app-settings''))"
  then show "key_of (with_app_settings_id (JObj ps)) = Some (JStr ''app-settings'')"
    by (simp add: singleton_slot)
qed

text \<open>
  Claim C9 as stated, for every input, fails in three ways. The text \<open>null\<close> has no
  \<open>vaults\<close> field, and the import fails with a \<open>TypeError\<close>, not with
  \<open>Invalid backup format\<close>. A backup whose \<open>vaults\<close> is an array holding a record without
  \<open>id\<close> is not imported: \<open>put\<close> throws \<open>DataError\<close>. Settings that carry the id
  \<open>other\<close> are filed under \<open>other\<close>, and the slot \<open>app-settings\<close> keeps what it held.
\<close>

theorem C9_import_counterexample:
  "importData (always JNull) ''null'' raw0 = (Inl TypeError, raw0) \<and>
   importData (always backup_no_id) ''backup'' raw0 = (Inl DataError, raw0\<lparr>raw_io_n := 1\<rparr>) \<and>
   fst (importData (always backup_settings_id) ''backup'' raw0) = Inr () \<and>
   setting_objs (snd (importData (always backup_settings_id) ''backup'' raw0))
       (JStr ''app-settings'') =
     Some (JObj [(''id'', JStr ''app-settings''), (''darkMode'', JBool False)]) \<and>
   setting_objs (snd (importData (always backup_settings_id) ''backup'' raw0)) (JStr ''other'') =
     Some (JObj [(''id'', JStr ''other''), (''darkMode'', JBool True)])"
proof -
  have 1: "importData (always JNull) ''null'' raw0 = (Inl TypeError, raw0)"
    by (simp add: importData_def always_def)
  have 2: "importData (always backup_no_id) ''backup'' raw0 = (Inl DataError, raw0\<lparr>raw_io_n := 1\<rparr>)"
    by (simp add: importData_def always_def backup_no_id_def truthy_opt_def isArray_opt_def
        saveVault_raw_def raw_put_def Let_def)
  have 3: "importData (always backup_settings_id) ''backup'' raw0 =
      (Inr (), raw0\<lparr>raw_io_n := 1,
                     setting_objs := (setting_objs raw0)(JStr ''other'' \<mapsto>
                        JObj [(''id'', JStr ''other''), (''darkMode'', JBool True)])\<rparr>)"
    by (simp add: importData_def always_def backup_settings_id_def truthy_opt_def isArray_opt_def
        saveSettings_raw_def raw_put_def with_app_settings_id_def orElse_def Let_def)
  show ?thesis unfolding 1 2 3 by simp
qed

theorem C9_importData_witness:
  "always backup_ok ''backup'' = Some backup_ok \<and> backup_ok \<noteq> JNull \<and>
   importData (always backup_no_id) ''backup'' raw0 \<noteq> (Inl (Error ''Invalid backup format''), raw0) \<and>
   importData (always (JObj [(''vaults'', JStr ''none'')])) ''backup'' raw0 =
     (Inl (Error ''Invalid backup format''), raw0) \<and>
   importData (always backup_ok) ''backup'' raw0 =
     (Inr (), raw0\<lparr>raw_io_n := 2,
                    vault_objs := [JStr ''v1'' \<mapsto> record1],
                    setting_objs := (setting_objs raw0)(JStr ''app-settings'' \<mapsto>
                       JObj [(''id'', JStr ''app-settings''), (''darkMode'', JBool True)])\<rparr>)"
proof -
  have p: "always backup_ok ''backup'' = Some backup_ok" by (simp add: always_def)
  have nn: "backup_ok \<noteq> JNull" by (simp add: backup_ok_def)
  have v: "get_prop backup_ok ''vaults'' = Inr (Some (JArr [record1])) \<and>
        (\<forall>v \<in> set [record1]. key_of v \<noteq> None) \<and>
        (\<forall>k \<le> length [record1]. raw_io raw0 (raw_io_n raw0 + k) = IoOk)"
    by (simp add: backup_ok_def record1_def)
  have s: "included_settings backup_ok = Some (JObj [(''darkMode'', JBool True)]) \<and>
        key_of (with_app_settings_id (JObj [(''darkMode'', JBool True)])) = Some (JStr ''app-settings'')"
    by (simp add: included_settings_def backup_ok_def with_app_settings_id_def orElse_def Let_def)
  from C9_importData [of "always backup_ok" "''backup''" backup_ok raw0, OF p nn] v s
  have "importData (always backup_ok) ''backup'' raw0 =
            (Inr (), raw0\<lparr>raw_io_n := Suc (raw_io_n raw0 + length [record1]),
                        vault_objs := fold upsert [record1] (vault_objs raw0),
                        setting_objs := (setting_objs raw0)(JStr ''app-settings'' \<mapsto>
                           with_app_settings_id (JObj [(''darkMode'', JBool True)]))\<rparr>)"
    by blast
  then have ok: "importData (always backup_ok) ''backup'' raw0 =
     (Inr (), raw0\<lparr>raw_io_n := 2,
                    vault_objs := [JStr ''v1'' \<mapsto> record1],
                    setting_objs := (setting_objs raw0)(JStr ''app-settings'' \<mapsto>
                       JObj [(''id'', JStr ''app-settings''), (''darkMode'', JBool True)])\<rparr>)"
    by (simp add: upsert_def record1_def with_app_settings_id_def orElse_def Let_def)
  have p2: "always (JObj [(''vaults'', JStr ''none'')]) ''backup'' = Some (JObj [(''vaults'', JStr ''none'')])"
    by (simp add: always_def)
  have "\<not> (\<exists>xs. get_prop (JObj [(''vaults'', JStr ''none'')]) ''vaults'' = Inr (Some (JArr xs)))"
    by simp
  with C9_importData [of "always (JObj [(''vaults'', JStr ''none'')])" "''backup''"
      "JObj [(''vaults'', JStr ''none'')]" raw0, OF p2]
  have bad: "importData (always (JObj [(''vaults'', JStr ''none'')])) ''backup'' raw0 =
     (Inl (Error ''Invalid backup format''), raw0)" by blast
  have p3: "always backup_no_id ''backup'' = Some backup_no_id" by (simp add: always_def)
  have nn3: "backup_no_id \<noteq> JNull" by (simp add: backup_no_id_def)
  have "\<exists>xs. get_prop backup_no_id ''vaults'' = Inr (Some (JArr xs))"
    by (simp add: backup_no_id_def)
  with C9_importData [of "always backup_no_id" "''backup''" backup_no_id raw0, OF p3 nn3]
  have other: "importData (always backup_no_id) ''backup'' raw0 \<noteq>
      (Inl (Error ''Invalid backup format''), raw0)" by blast
  from p nn other bad ok show ?thesis by blast
qed

section \<open>What an update leaves alone\<close>

text \<open>
  Claim C10. In a store that files every record under its own id, a successful
  \<open>updateVault\<close> on an existing record leaves a record under the same id whose id,
  createdAt and salt are those of the old one; it differs from the old record at most in
  name, encryptedData, iv, lastModified and lastAccessed, and every other record of the
  store is untouched.
\<close>

theorem C10_updateVault_frame:
  assumes "store_wf w" and "vaults w i = Some ev"
    and "updateVault P i pw data newName w = (Inr v, w')"
  shows "\<exists>ev'. vaults w' i = Some ev' \<and>
           vid ev' = vid ev \<and> createdAt ev' = createdAt ev \<and> salt ev' = salt ev \<and>
           (\<exists>n e i' t. ev' = ev\<lparr>name := n, encryptedData := e, iv := i', lastModified := t,
                                   lastAccessed := t\<rparr>) \<and>
           (\<forall>j. j \<noteq> i \<longrightarrow> vaults w' j = vaults w j)"
proof -
  from assms(1,2) have k: "vid ev = i" by (simp add: store_wf_def)
  from assms(3) have "updateVault_text P i pw (JSON_stringify P data) newName w = (Inr v, w')"
    by (simp add: updateVault_def)
  from updateVault_text_InrD [OF this] assms(2)
  obtain salt' where
    w': "w' = after_update (rewritten P ev (PBKDF2 P pw salt') (JSON_stringify P data) newName
                (fresh_iv w) (now w)) w"
    by auto
  let ?ev' = "rewritten P ev (PBKDF2 P pw salt') (JSON_stringify P data) newName (fresh_iv w) (now w)"
  have 1: "vaults w' i = Some ?ev'" using w' k by (simp add: after_update_def)
  have 2: "vid ?ev' = vid ev \<and> createdAt ?ev' = createdAt ev \<and> salt ?ev' = salt ev"
    by (simp add: rewritten_def)
  have 3: "\<exists>n e i' t. ?ev' = ev\<lparr>name := n, encryptedData := e, iv := i', lastModified := t,
                                   lastAccessed := t\<rparr>"
    unfolding rewritten_def by blast
  have 4: "\<forall>j. j \<noteq> i \<longrightarrow> vaults w' j = vaults w j"
    using w' k by (simp add: after_update_def)
  from 1 2 3 4 show ?thesis by blast
qed

theorem C10_updateVault_frame_witness:
  "store_wf vault_world \<and> vaults vault_world ''u'' = Some vault0 \<and>
   (\<exists>v w' ev'. updateVault ref_platform ''u'' ''hunter2'' defaultVaultData (Some ''Home'') vault_world
                  = (Inr v, w') \<and>
      vaults w' ''u'' = Some ev' \<and> vid ev' = vid vault0 \<and> createdAt ev' = createdAt vault0 \<and>
      salt ev' = salt vault0)"
proof -
  have stored: "vaults vault_world ''u'' = Some vault0" by simp
  have "\<exists>v w'. updateVault ref_platform ''u'' ''hunter2'' defaultVaultData (Some ''Home'') vault_world
                  = (Inr v, w')"
    unfolding updateVault_def
    using updateVault_text_InrI [of vault_world "''u''" vault0 ref_platform
        "map byte_of_char (salt vault0)" "''hunter2''"
        "JSON_stringify ref_platform defaultVaultData" "Some ''Home''"]
    by simp
  then obtain v w' where
    run: "updateVault ref_platform ''u'' ''hunter2'' defaultVaultData (Some ''Home'') vault_world
            = (Inr v, w')" by blast
  from C10_updateVault_frame [OF store_wf_vault_world stored run] run stored store_wf_vault_world
  show ?thesis by blast
qed

end
